theory Spec2Isabelle
  imports Complex_Main
begin

section \<open>GLSL values and built-in functions\<close>

text \<open>
  The fragment shader of \<^verbatim>\<open>stars-layer.js\<close> and of the \<^verbatim>\<open>StarsPlugin\<close> class is
  a pure function of its uniforms and of the interpolated \<^verbatim>\<open>view_direction\<close>.
  GLSL \<^verbatim>\<open>float\<close> is idealised as \<^typ>\<open>real\<close>: rounding, infinities and NaN are
  not part of this model.  A \<^verbatim>\<open>vec2\<close> is a pair and a \<^verbatim>\<open>vec3\<close> a triple; the
  component selectors \<^verbatim>\<open>.x .y .z\<close> are written \<open>x2 y2\<close> and \<open>x3 y3 z3\<close>.
\<close>

type_synonym vec2 = "real \<times> real"
type_synonym vec3 = "real \<times> real \<times> real"
type_synonym vec4 = "real \<times> real \<times> real \<times> real"

abbreviation x2 :: "vec2 \<Rightarrow> real" where "x2 v \<equiv> fst v"
abbreviation y2 :: "vec2 \<Rightarrow> real" where "y2 v \<equiv> snd v"
abbreviation x3 :: "vec3 \<Rightarrow> real" where "x3 v \<equiv> fst v"
abbreviation y3 :: "vec3 \<Rightarrow> real" where "y3 v \<equiv> fst (snd v)"
abbreviation z3 :: "vec3 \<Rightarrow> real" where "z3 v \<equiv> snd (snd v)"

text \<open>
  \<^verbatim>\<open>const float PI = 3.141592653589793;\<close> is \<open>\<pi>\<close> to the precision of a float, as are
  the extreme values of \<^verbatim>\<open>asin\<close> and \<^verbatim>\<open>atan\<close> that the shader divides by it.  Where
  floats are reals the constant is \<open>\<pi>\<close>: with the decimal digits in its place the real
  \<open>arcsin (- 1)\<close> would fall below the lowest row of the grid, which the floats do not.
\<close>

definition PI :: real where
  "PI = pi"

definition fract :: "real \<Rightarrow> real" where
  "fract a = a - of_int \<lfloor>a\<rfloor>"

definition fract2 :: "vec2 \<Rightarrow> vec2" where
  "fract2 v = (fract (x2 v), fract (y2 v))"

definition floor2 :: "vec2 \<Rightarrow> vec2" where
  "floor2 v = (of_int \<lfloor>x2 v\<rfloor>, of_int \<lfloor>y2 v\<rfloor>)"

definition dot2 :: "vec2 \<Rightarrow> vec2 \<Rightarrow> real" where
  "dot2 a b = x2 a * x2 b + y2 a * y2 b"

definition length2 :: "vec2 \<Rightarrow> real" where
  "length2 v = sqrt (x2 v * x2 v + y2 v * y2 v)"

definition length3 :: "vec3 \<Rightarrow> real" where
  "length3 v = sqrt (x3 v * x3 v + y3 v * y3 v + z3 v * z3 v)"

text \<open>
  \<^verbatim>\<open>normalize(v)\<close> is \<open>v / length(v)\<close>.  GLSL leaves it undefined for the zero vector;
  here the division by zero of HOL yields the zero vector, and no theorem below relies on
  that value.
\<close>

definition normalize3 :: "vec3 \<Rightarrow> vec3" where
  "normalize3 v = (x3 v / length3 v, y3 v / length3 v, z3 v / length3 v)"

definition clamp :: "real \<Rightarrow> real \<Rightarrow> real \<Rightarrow> real" where
  "clamp a minVal maxVal = min (max a minVal) maxVal"

text \<open>\<^verbatim>\<open>smoothstep(edge0, edge1, x)\<close>: Hermite interpolation of the clamped ratio.\<close>

definition smoothstep :: "real \<Rightarrow> real \<Rightarrow> real \<Rightarrow> real" where
  "smoothstep edge0 edge1 a =
     (let t = clamp ((a - edge0) / (edge1 - edge0)) 0 1 in t * t * (3 - 2 * t))"

text \<open>
  The two-argument \<^verbatim>\<open>atan(y, x)\<close>: the angle of the point \<open>(x, y)\<close> in \<open>(-\<pi>, \<pi>]\<close>.
  GLSL leaves \<^verbatim>\<open>atan(0, 0)\<close> undefined; the model fixes \<open>0\<close> there.
\<close>

definition glsl_atan :: "real \<Rightarrow> real \<Rightarrow> real" where
  "glsl_atan b a =
     (if 0 < a then arctan (b / a)
      else if a < 0 then (if 0 \<le> b then arctan (b / a) + pi else arctan (b / a) - pi)
      else if 0 < b then pi / 2
      else if b < 0 then - (pi / 2)
      else 0)"

text \<open>
  \<^verbatim>\<open>pow(x, y)\<close> is defined by GLSL for \<open>x > 0\<close>, and for \<open>x = 0\<close> with \<open>y > 0\<close>; on that
  domain it is \<^term>\<open>(powr)\<close>.
\<close>

definition pow :: "real \<Rightarrow> real \<Rightarrow> real" where
  "pow a b = a powr b"

section \<open>The fragment shader\<close>

text \<open>
  The two files carry the same shader up to the constants of \<^verbatim>\<open>starSize\<close>:
  \<^verbatim>\<open>0.01 + 0.05 * sizeHash\<close> in \<^verbatim>\<open>createStarsLayer\<close> and
  \<^verbatim>\<open>0.015 + 0.025 * sizeHash\<close> in \<^verbatim>\<open>StarsPlugin\<close>.
\<close>

datatype variant = Layer | Plugin

fun sizeBase :: "variant \<Rightarrow> real" where
  "sizeBase Layer = 0.01"
| "sizeBase Plugin = 0.015"

fun sizeRange :: "variant \<Rightarrow> real" where
  "sizeRange Layer = 0.05"
| "sizeRange Plugin = 0.025"

text \<open>A \<^verbatim>\<open>mat4\<close> is a column-major array of 16 numbers, indexed from 0.\<close>

type_synonym mat4 = "nat \<Rightarrow> real"

record uniforms =
  u_inv_proj_matrix :: mat4
  u_globe_position :: vec3
  u_globe_radius :: real
  u_stars_intensity :: real
  u_globe_center :: vec2
  u_camera_angles :: vec3

subsection \<open>Camera and globe rotations\<close>

text \<open>
  The five reassignments of \<^verbatim>\<open>rotated\<close> in \<^verbatim>\<open>main()\<close>, from
  \<^verbatim>\<open>vec3 rotated = ray_dir;\<close> to the longitude rotation.
\<close>

definition rotate_ray :: "vec3 \<Rightarrow> vec2 \<Rightarrow> vec3 \<Rightarrow> vec3" where
  "rotate_ray camera_angles globe_center ray_dir =
     (let rotated = ray_dir;
          cosPitch = cos (x3 camera_angles);
          sinPitch = sin (x3 camera_angles);
          rotated = (x3 rotated,
                     y3 rotated * cosPitch - z3 rotated * sinPitch,
                     y3 rotated * sinPitch + z3 rotated * cosPitch);
          cosBearing = cos (y3 camera_angles);
          sinBearing = sin (y3 camera_angles);
          rotated = (x3 rotated * cosBearing - z3 rotated * sinBearing,
                     y3 rotated,
                     x3 rotated * sinBearing + z3 rotated * cosBearing);
          cosRoll = cos (z3 camera_angles);
          sinRoll = sin (z3 camera_angles);
          rotated = (x3 rotated * cosRoll - y3 rotated * sinRoll,
                     x3 rotated * sinRoll + y3 rotated * cosRoll,
                     z3 rotated);
          cosLat = cos (y2 globe_center);
          sinLat = sin (y2 globe_center);
          rotated = (x3 rotated,
                     y3 rotated * cosLat + z3 rotated * sinLat,
                     - y3 rotated * sinLat + z3 rotated * cosLat);
          cosLng = cos (x2 globe_center);
          sinLng = sin (x2 globe_center);
          rotated = (x3 rotated * cosLng + z3 rotated * sinLng,
                     y3 rotated,
                     - x3 rotated * sinLng + z3 rotated * cosLng)
      in rotated)"

text \<open>\<^verbatim>\<open>lng = atan(rotated.x, rotated.z); lat = asin(rotated.y);\<close>\<close>

definition spherical :: "vec3 \<Rightarrow> vec2" where
  "spherical rotated = (glsl_atan (x3 rotated) (z3 rotated), arcsin (y3 rotated))"

definition coord_transform :: "vec3 \<Rightarrow> vec2 \<Rightarrow> vec3 \<Rightarrow> vec2" where
  "coord_transform camera_angles globe_center ray_dir =
     spherical (rotate_ray camera_angles globe_center ray_dir)"

subsection \<open>The pipeline as the specification words it\<close>

text \<open>
  Five separate rotations, to be compared with \<^const>\<open>rotate_ray\<close>: about the X axis,
  about the Y axis, about the Z axis, the tilt by the latitude of the globe centre, and
  the turn by its longitude.
\<close>

definition rotate_X :: "real \<Rightarrow> vec3 \<Rightarrow> vec3" where
  "rotate_X a v = (x3 v, y3 v * cos a - z3 v * sin a, y3 v * sin a + z3 v * cos a)"

definition rotate_Y :: "real \<Rightarrow> vec3 \<Rightarrow> vec3" where
  "rotate_Y a v = (x3 v * cos a - z3 v * sin a, y3 v, x3 v * sin a + z3 v * cos a)"

definition rotate_Z :: "real \<Rightarrow> vec3 \<Rightarrow> vec3" where
  "rotate_Z a v = (x3 v * cos a - y3 v * sin a, x3 v * sin a + y3 v * cos a, z3 v)"

definition rotate_lat :: "real \<Rightarrow> vec3 \<Rightarrow> vec3" where
  "rotate_lat a v = (x3 v, y3 v * cos a + z3 v * sin a, - y3 v * sin a + z3 v * cos a)"

definition rotate_lng :: "real \<Rightarrow> vec3 \<Rightarrow> vec3" where
  "rotate_lng a v = (x3 v * cos a + z3 v * sin a, y3 v, - x3 v * sin a + z3 v * cos a)"

definition spec_rotation :: "real \<Rightarrow> real \<Rightarrow> real \<Rightarrow> real \<Rightarrow> real \<Rightarrow> vec3 \<Rightarrow> vec3" where
  "spec_rotation pitch bearing roll centerLat centerLng ray =
     rotate_lng centerLng (rotate_lat centerLat (rotate_Z roll (rotate_Y bearing (rotate_X pitch ray))))"

subsection \<open>The star field\<close>

text \<open>
  The hash that the shader writes out four times, with four pairs of constants:
  \<^verbatim>\<open>fract(sin(dot(gridPos, vec2(k1, k2))) * 43758.5453)\<close>.
\<close>

definition cell_hash :: "vec2 \<Rightarrow> vec2 \<Rightarrow> real" where
  "cell_hash gridPos k = fract (sin (dot2 gridPos k) * 43758.5453)"

text \<open>
  The block from \<^verbatim>\<open>vec2 scaledUV = uv * 200.0;\<close> to
  \<^verbatim>\<open>stars *= u_stars_intensity;\<close>.  The argument \<open>threshold\<close> is the numeric
  literal that the template \<^verbatim>\<open>${(1 - density).toFixed(2)}\<close> puts into the source text.
\<close>

definition starField :: "variant \<Rightarrow> real \<Rightarrow> real \<Rightarrow> vec2 \<Rightarrow> real \<Rightarrow> real" where
  "starField var threshold stars_intensity uv lat =
     (let scaledUV = (x2 uv * 200, y2 uv * 200);
          gridPos = floor2 scaledUV;
          hash = cell_hash gridPos (12.9898, 78.233);
          stars = 0;
          stars =
            (if hash > threshold then
               (let hashX = cell_hash gridPos (127.1, 311.7);
                    hashY = cell_hash gridPos (269.5, 183.3);
                    randomOffset = (hashX, hashY);
                    localPos = fract2 scaledUV;
                    delta = ((x2 localPos - x2 randomOffset) / 200,
                             (y2 localPos - y2 randomOffset) / 200);
                    aspectCorrection = max 0.3 (cos lat);
                    delta = (x2 delta / aspectCorrection, y2 delta);
                    delta = (x2 delta, y2 delta * 2);
                    dist = length2 delta * 200;
                    sizeHash = cell_hash gridPos (415.2, 371.9);
                    starSize = sizeBase var + sizeRange var * sizeHash;
                    stars = 1 - smoothstep 0 starSize dist;
                    stars = pow stars 4;
                    brightness = 0.5 + 0.5 * sizeHash;
                    stars = stars * brightness
                in stars)
             else stars);
          stars = stars * stars_intensity
      in stars)"

text \<open>\<^verbatim>\<open>vec2 uv = vec2((lng / PI) * 0.5 + 0.5, (lat / (PI * 0.5)) * 0.5 + 0.5);\<close>\<close>

definition uv_of :: "vec2 \<Rightarrow> vec2" where
  "uv_of lnglat = ((x2 lnglat / PI) * 0.5 + 0.5, (y2 lnglat / (PI * 0.5)) * 0.5 + 0.5)"

text \<open>
  \<^verbatim>\<open>main()\<close> of the fragment shader: the value written to \<^verbatim>\<open>gl_FragColor\<close>.
\<close>

definition fragment_main :: "variant \<Rightarrow> real \<Rightarrow> uniforms \<Rightarrow> vec3 \<Rightarrow> vec4" where
  "fragment_main var threshold u view_direction =
     (let ray_dir = normalize3 view_direction;
          lnglat = coord_transform (u_camera_angles u) (u_globe_center u) ray_dir;
          lat = y2 lnglat;
          uv = uv_of lnglat;
          stars = starField var threshold (u_stars_intensity u) uv lat;
          starColor = (1 * stars, 1 * stars, 1 * stars)
      in (x3 starColor, y3 starColor, z3 starColor, 1))"

subsection \<open>Names for the intermediate values of the star field\<close>

text \<open>
  The local variables of the block, as functions of what they are computed from, so that
  statements can speak about \<^verbatim>\<open>gridPos\<close>, \<^verbatim>\<open>hash\<close>, \<^verbatim>\<open>dist\<close>,
  \<^verbatim>\<open>sizeHash\<close>, \<^verbatim>\<open>starSize\<close> and \<^verbatim>\<open>brightness\<close>.  Lemma
  \<open>starField_eq\<close> below shows that \<^const>\<open>starField\<close> is built from exactly these.
\<close>

definition gridPos_of :: "vec2 \<Rightarrow> vec2" where
  "gridPos_of uv = floor2 (x2 uv * 200, y2 uv * 200)"

definition presenceHash :: "vec2 \<Rightarrow> real" where
  "presenceHash gridPos = cell_hash gridPos (12.9898, 78.233)"

definition starPresent :: "real \<Rightarrow> vec2 \<Rightarrow> bool" where
  "starPresent threshold gridPos = (presenceHash gridPos > threshold)"

definition offsetHash :: "vec2 \<Rightarrow> vec2" where
  "offsetHash gridPos = (cell_hash gridPos (127.1, 311.7), cell_hash gridPos (269.5, 183.3))"

definition sizeHash_of :: "vec2 \<Rightarrow> real" where
  "sizeHash_of gridPos = cell_hash gridPos (415.2, 371.9)"

definition brightness_of :: "vec2 \<Rightarrow> real" where
  "brightness_of gridPos = 0.5 + 0.5 * sizeHash_of gridPos"

definition starSize_of :: "variant \<Rightarrow> vec2 \<Rightarrow> real" where
  "starSize_of var gridPos = sizeBase var + sizeRange var * sizeHash_of gridPos"

definition dist_of :: "vec2 \<Rightarrow> real \<Rightarrow> real" where
  "dist_of uv lat =
     (let scaledUV = (x2 uv * 200, y2 uv * 200);
          randomOffset = offsetHash (floor2 scaledUV);
          localPos = fract2 scaledUV;
          delta = ((x2 localPos - x2 randomOffset) / 200,
                   (y2 localPos - y2 randomOffset) / 200);
          aspectCorrection = max 0.3 (cos lat);
          delta = (x2 delta / aspectCorrection, y2 delta);
          delta = (x2 delta, y2 delta * 2)
      in length2 delta * 200)"

text \<open>
  The value of \<^verbatim>\<open>stars\<close> in a cell with a star, after \<^verbatim>\<open>stars *= brightness\<close> and
  before \<^verbatim>\<open>stars *= u_stars_intensity\<close>.
\<close>

definition strength_of :: "variant \<Rightarrow> vec2 \<Rightarrow> real \<Rightarrow> real" where
  "strength_of var uv lat =
     pow (1 - smoothstep 0 (starSize_of var (gridPos_of uv)) (dist_of uv lat)) 4
       * brightness_of (gridPos_of uv)"

text \<open>
  The same block once more, returning every hash it computes beside the value of
  \<^verbatim>\<open>stars\<close>: \<^verbatim>\<open>hash\<close>, and \<^verbatim>\<open>hashX\<close>, \<^verbatim>\<open>hashY\<close>, \<^verbatim>\<open>sizeHash\<close> and
  \<^verbatim>\<open>brightness\<close>, which exist only inside the \<^verbatim>\<open>if\<close>.  Lemma \<open>starField_trace_stars\<close>
  below shows that its \<open>t_stars\<close> is \<^const>\<open>starField\<close>.
\<close>

record star_trace =
  t_gridPos :: vec2
  t_hash :: real
  t_hashX :: "real option"
  t_hashY :: "real option"
  t_sizeHash :: "real option"
  t_brightness :: "real option"
  t_stars :: real

definition starField_trace :: "variant \<Rightarrow> real \<Rightarrow> real \<Rightarrow> vec2 \<Rightarrow> real \<Rightarrow> star_trace" where
  "starField_trace var threshold stars_intensity uv lat =
     (let scaledUV = (x2 uv * 200, y2 uv * 200);
          gridPos = floor2 scaledUV;
          hash = cell_hash gridPos (12.9898, 78.233);
          stars = 0
      in if hash > threshold then
           (let hashX = cell_hash gridPos (127.1, 311.7);
                hashY = cell_hash gridPos (269.5, 183.3);
                randomOffset = (hashX, hashY);
                localPos = fract2 scaledUV;
                delta = ((x2 localPos - x2 randomOffset) / 200,
                         (y2 localPos - y2 randomOffset) / 200);
                aspectCorrection = max 0.3 (cos lat);
                delta = (x2 delta / aspectCorrection, y2 delta);
                delta = (x2 delta, y2 delta * 2);
                dist = length2 delta * 200;
                sizeHash = cell_hash gridPos (415.2, 371.9);
                starSize = sizeBase var + sizeRange var * sizeHash;
                stars = 1 - smoothstep 0 starSize dist;
                stars = pow stars 4;
                brightness = 0.5 + 0.5 * sizeHash;
                stars = stars * brightness;
                stars = stars * stars_intensity
            in \<lparr>t_gridPos = gridPos, t_hash = hash, t_hashX = Some hashX, t_hashY = Some hashY,
                t_sizeHash = Some sizeHash, t_brightness = Some brightness, t_stars = stars\<rparr>)
         else
           (let stars = stars * stars_intensity
            in \<lparr>t_gridPos = gridPos, t_hash = hash, t_hashX = None, t_hashY = None,
                t_sizeHash = None, t_brightness = None, t_stars = stars\<rparr>))"

section \<open>Configuration\<close>

text \<open>
  JavaScript numbers are idealised as reals; \<^verbatim>\<open>undefined\<close> (an option that was not
  given) is \<^const>\<open>None\<close>.  \<^verbatim>\<open>a || d\<close> yields \<open>d\<close> when \<open>a\<close> is falsy: for a number
  that is \<^verbatim>\<open>undefined\<close> or \<open>0\<close> (NaN is outside the model).
\<close>

definition js_or :: "real option \<Rightarrow> real \<Rightarrow> real" where
  "js_or a d = (case a of None \<Rightarrow> d | Some v \<Rightarrow> if v = 0 then d else v)"

text \<open>
  \<^verbatim>\<open>Number.prototype.toFixed(2)\<close>, read back as the number that the digits denote: for
  \<open>a < 0\<close> the sign is set aside and \<open>- a\<close> is rounded; the integer \<open>n\<close> with
  \<open>n / 100\<close> closest to the value is taken, the larger one when two are equally close.
  (From \<open>10\<^sup>2\<^sup>1\<close> on \<^verbatim>\<open>toFixed\<close> switches to the exponent notation; a threshold is
  far below.)
\<close>

definition toFixed2 :: "real \<Rightarrow> real" where
  "toFixed2 a =
     (if a < 0 then - (of_int \<lfloor>100 * (- a) + 1 / 2\<rfloor> / 100)
      else of_int \<lfloor>100 * a + 1 / 2\<rfloor> / 100)"

text \<open>
  Where the digits of a number are printed the rounding of doubles matters, so the
  subtraction \<^verbatim>\<open>1 - density\<close> is modelled as IEEE 754 defines it: \<open>fl x\<close> is the double
  nearest to \<open>x\<close>, the one with the even significand when two are equally near (53 bits
  of significand; overflow and subnormal numbers are not modelled, a density is far from
  both).
\<close>

definition round_even :: "real \<Rightarrow> int" where
  "round_even y =
     (let n = \<lfloor>y\<rfloor>; r = y - of_int n
      in if r < 1 / 2 then n else if 1 / 2 < r then n + 1 else if even n then n else n + 1)"

definition fl :: "real \<Rightarrow> real" where
  "fl x =
     (if x = 0 then 0
      else (let e = \<lfloor>log 2 \<bar>x\<bar>\<rfloor>; ulp = 2 powr (of_int e - 52)
            in of_int (round_even (x / ulp)) * ulp))"

text \<open>
  The literal baked into the fragment source: \<^verbatim>\<open>(1 - density).toFixed(2)\<close>.  The
  density is a JavaScript number, that is a double; for a real that is not one the double
  nearest to it is taken, as for a decimal literal.  The difference is rounded to a double,
  and \<^verbatim>\<open>toFixed\<close> rounds the exact value of that double.
\<close>

definition threshold_of :: "real \<Rightarrow> real" where
  "threshold_of density = toFixed2 (fl (1 - fl density))"

text \<open>The fragment shader compiled for a given density.\<close>

definition fragmentSource :: "variant \<Rightarrow> real \<Rightarrow> uniforms \<Rightarrow> vec3 \<Rightarrow> vec4" where
  "fragmentSource var density = fragment_main var (threshold_of density)"

record options =
  opt_id :: "string option"
  opt_intensity :: "real option"
  opt_density :: "real option"

section \<open>The host: map, transform and WebGL context\<close>

text \<open>
  What \<^verbatim>\<open>render\<close> reads from \<^verbatim>\<open>this.map.transform\<close>.  The field
  \<open>projectionTransition\<close> is the value of
  \<^verbatim>\<open>transform.getProjectionData({...}).projectionTransition\<close> for the frame.
  \<^verbatim>\<open>pitchInRadians\<close>, \<^verbatim>\<open>bearingInRadians\<close> and \<^verbatim>\<open>rollInRadians\<close> may be absent
  from the host's transform.
\<close>

record map_transform =
  projectionTransition :: real
  modelViewProjectionMatrix :: mat4
  inverseProjectionMatrix :: mat4
  worldSize :: real
  center_lng :: real
  center_lat :: real
  pitchInRadians :: "real option"
  pitch :: real
  bearingInRadians :: "real option"
  bearing :: real
  rollInRadians :: "real option"

text \<open>
  The map: its transform, the ids of the layers of its style, and whether the
  gl-matrix objects \<^verbatim>\<open>mat4\<close> and \<^verbatim>\<open>vec4\<close> can be found.
\<close>

record host_map =
  transform :: map_transform
  layers :: "string list"
  glmatrix :: bool

datatype capability = BLEND | DEPTH_TEST
datatype buffer_target = ARRAY_BUFFER | ELEMENT_ARRAY_BUFFER
datatype shader_type = VERTEX_SHADER | FRAGMENT_SHADER

text \<open>The values of the WebGL enumerants that the code passes.\<close>

definition GL_ZERO :: nat where "GL_ZERO = 0"
definition GL_ONE :: nat where "GL_ONE = 1"
definition GL_SRC_ALPHA :: nat where "GL_SRC_ALPHA = 770"
definition GL_ONE_MINUS_SRC_ALPHA :: nat where "GL_ONE_MINUS_SRC_ALPHA = 771"
definition GL_LESS :: nat where "GL_LESS = 513"
definition GL_ALWAYS :: nat where "GL_ALWAYS = 519"

text \<open>
  The state of the WebGL context that the two components read or write.  Object handles
  (programs, buffers) are numbers; \<^const>\<open>None\<close> is \<^verbatim>\<open>null\<close>.  \<open>draw_calls\<close> counts
  the \<^verbatim>\<open>drawElements\<close> calls issued so far; the pixels they write are the values of
  \<^const>\<open>fragment_main\<close> and are not stored.  \<open>attrib_location\<close> is what
  \<^verbatim>\<open>getAttribLocation(program, 'a_pos')\<close> answers.  GL error conditions are not
  modelled: every call has the effect it has with valid arguments.  The one call that
  raises is \<^verbatim>\<open>attachShader\<close> with a \<^verbatim>\<open>null\<close> shader, in \<open>createProgram\<close> below.
\<close>

record gl_context =
  current_program :: "nat option"
  depth_test :: bool
  depth_func :: nat
  depth_writemask :: bool
  blend :: bool
  blend_src_rgb :: nat
  blend_dst_rgb :: nat
  blend_src_alpha :: nat
  blend_dst_alpha :: nat
  array_buffer :: "nat option"
  element_array_buffer :: "nat option"
  attrib_enabled :: "int \<Rightarrow> bool"
  attrib_buffer :: "int \<Rightarrow> nat option"
  attrib_location :: "nat \<Rightarrow> int"
  uniform_store :: "nat \<Rightarrow> uniforms"
  draw_calls :: nat

definition useProgram :: "nat option \<Rightarrow> gl_context \<Rightarrow> gl_context" where
  "useProgram prog gl = gl\<lparr>current_program := prog\<rparr>"

definition depthFunc :: "nat \<Rightarrow> gl_context \<Rightarrow> gl_context" where
  "depthFunc f gl = gl\<lparr>depth_func := f\<rparr>"

definition depthMask :: "bool \<Rightarrow> gl_context \<Rightarrow> gl_context" where
  "depthMask flag gl = gl\<lparr>depth_writemask := flag\<rparr>"

fun enable :: "capability \<Rightarrow> gl_context \<Rightarrow> gl_context" where
  "enable BLEND gl = gl\<lparr>blend := True\<rparr>"
| "enable DEPTH_TEST gl = gl\<lparr>depth_test := True\<rparr>"

fun disable :: "capability \<Rightarrow> gl_context \<Rightarrow> gl_context" where
  "disable BLEND gl = gl\<lparr>blend := False\<rparr>"
| "disable DEPTH_TEST gl = gl\<lparr>depth_test := False\<rparr>"

text \<open>\<^verbatim>\<open>blendFunc(s, d)\<close> sets the RGB and the alpha factors alike.\<close>

definition blendFunc :: "nat \<Rightarrow> nat \<Rightarrow> gl_context \<Rightarrow> gl_context" where
  "blendFunc sfactor dfactor gl =
     gl\<lparr>blend_src_rgb := sfactor, blend_dst_rgb := dfactor,
        blend_src_alpha := sfactor, blend_dst_alpha := dfactor\<rparr>"

fun bindBuffer :: "buffer_target \<Rightarrow> nat option \<Rightarrow> gl_context \<Rightarrow> gl_context" where
  "bindBuffer ARRAY_BUFFER buffer gl = gl\<lparr>array_buffer := buffer\<rparr>"
| "bindBuffer ELEMENT_ARRAY_BUFFER buffer gl = gl\<lparr>element_array_buffer := buffer\<rparr>"

definition enableVertexAttribArray :: "int \<Rightarrow> gl_context \<Rightarrow> gl_context" where
  "enableVertexAttribArray index gl = gl\<lparr>attrib_enabled := (attrib_enabled gl)(index := True)\<rparr>"

definition disableVertexAttribArray :: "int \<Rightarrow> gl_context \<Rightarrow> gl_context" where
  "disableVertexAttribArray index gl = gl\<lparr>attrib_enabled := (attrib_enabled gl)(index := False)\<rparr>"

text \<open>\<^verbatim>\<open>vertexAttribPointer\<close> attaches the buffer bound to \<^verbatim>\<open>ARRAY_BUFFER\<close>.\<close>

definition vertexAttribPointer :: "int \<Rightarrow> gl_context \<Rightarrow> gl_context" where
  "vertexAttribPointer index gl =
     gl\<lparr>attrib_buffer := (attrib_buffer gl)(index := array_buffer gl)\<rparr>"

text \<open>
  \<^verbatim>\<open>gl.uniform*\<close> writes one uniform of the program in use; without a program in use it
  has no effect.
\<close>

definition uniform :: "(uniforms \<Rightarrow> uniforms) \<Rightarrow> gl_context \<Rightarrow> gl_context" where
  "uniform upd gl =
     (case current_program gl of
        None \<Rightarrow> gl
      | Some p \<Rightarrow> gl\<lparr>uniform_store := (uniform_store gl)(p := upd (uniform_store gl p))\<rparr>)"

definition drawElements :: "gl_context \<Rightarrow> gl_context" where
  "drawElements gl = gl\<lparr>draw_calls := draw_calls gl + 1\<rparr>"

section \<open>Frame state\<close>

text \<open>\<^verbatim>\<open>vec4.transformMat4(out, a, m)\<close> of gl-matrix.\<close>

definition transformMat4 :: "vec4 \<Rightarrow> mat4 \<Rightarrow> vec4" where
  "transformMat4 a m =
     (case a of (x, y, z, w) \<Rightarrow>
        (m 0 * x + m 4 * y + m 8 * z + m 12 * w,
         m 1 * x + m 5 * y + m 9 * z + m 13 * w,
         m 2 * x + m 6 * y + m 10 * z + m 14 * w,
         m 3 * x + m 7 * y + m 11 * z + m 15 * w))"

text \<open>
  The computation of \<^verbatim>\<open>globePosition\<close>, the same in both files.  A division by a zero
  \<^verbatim>\<open>vec[3]\<close> gives an infinity or NaN in JavaScript and \<open>0\<close> here.
\<close>

definition globePosition_of :: "host_map \<Rightarrow> vec3" where
  "globePosition_of m =
     (let vec = (0, 0, 0, 1);
          vec =
            (if glmatrix m then
               (let vec = transformMat4 vec (modelViewProjectionMatrix (transform m));
                    vec = (case vec of (v0, v1, v2, v3) \<Rightarrow> (v0 / v3, v1 / v3, v2 / v3, 1));
                    vec = transformMat4 vec (inverseProjectionMatrix (transform m));
                    vec = (case vec of (v0, v1, v2, v3) \<Rightarrow> (v0 / v3, v1 / v3, v2 / v3, v3))
                in vec)
             else vec)
      in (case vec of (v0, v1, v2, v3) \<Rightarrow> (v0, v1, v2)))"

text \<open>\<^verbatim>\<open>_getGlobeRadius(worldSize, latitude)\<close>; \<^verbatim>\<open>Math.PI\<close> is taken as \<open>\<pi>\<close>.\<close>

definition getGlobeRadius :: "real \<Rightarrow> real \<Rightarrow> real" where
  "getGlobeRadius worldSz latitude =
     (let circumference = worldSz;
          radius = circumference / (2 * pi)
      in radius * cos (latitude * pi / 180))"

definition globeCenter_of :: "map_transform \<Rightarrow> vec2" where
  "globeCenter_of t = (center_lng t * pi / 180, center_lat t * pi / 180)"

definition cameraAngles_of :: "map_transform \<Rightarrow> vec3" where
  "cameraAngles_of t =
     (js_or (pitchInRadians t) (pitch t * pi / 180),
      - (js_or (bearingInRadians t) (bearing t * pi / 180)),
      - (js_or (rollInRadians t) 0))"

text \<open>The six \<^verbatim>\<open>gl.uniform*\<close> calls, in the order of the source.\<close>

definition set_uniforms :: "host_map \<Rightarrow> real \<Rightarrow> gl_context \<Rightarrow> gl_context" where
  "set_uniforms m stars_intensity gl =
     (let t = transform m;
          globePosition = globePosition_of m;
          globeRadius = getGlobeRadius (worldSize t) (center_lat t);
          globeCenter = globeCenter_of t;
          cameraAngles = cameraAngles_of t;
          gl = uniform (\<lambda>u. u\<lparr>u_inv_proj_matrix := inverseProjectionMatrix t\<rparr>) gl;
          gl = uniform (\<lambda>u. u\<lparr>u_globe_position := globePosition\<rparr>) gl;
          gl = uniform (\<lambda>u. u\<lparr>u_globe_radius := globeRadius\<rparr>) gl;
          gl = uniform (\<lambda>u. u\<lparr>u_stars_intensity := stars_intensity\<rparr>) gl;
          gl = uniform (\<lambda>u. u\<lparr>u_globe_center := globeCenter\<rparr>) gl;
          gl = uniform (\<lambda>u. u\<lparr>u_camera_angles := cameraAngles\<rparr>) gl
      in gl)"

section \<open>Errors, console and driver\<close>

text \<open>
  The exception that statements of the two files raise in this model: on reading a
  property of \<^verbatim>\<open>undefined\<close>, and on handing \<^verbatim>\<open>null\<close> to \<^verbatim>\<open>gl.attachShader\<close>.
\<close>

datatype js_error = TypeError

text \<open>
  What the WebGL implementation answers at attach time: the \<^verbatim>\<open>COMPILE_STATUS\<close> of the
  two shaders, whether the linker accepts two compiled shaders, and the handles of the
  objects it creates.  \<^verbatim>\<open>LINK_STATUS\<close> is false whenever a shader is missing or did not
  compile.
\<close>

record gl_driver =
  vertex_compiles :: bool
  fragment_compiles :: bool
  program_links :: bool
  new_vertexShader :: nat
  new_fragmentShader :: nat
  new_program :: nat
  new_vertexBuffer :: nat
  new_indexBuffer :: nat

fun compile_status :: "gl_driver \<Rightarrow> shader_type \<Rightarrow> bool" where
  "compile_status d VERTEX_SHADER = vertex_compiles d"
| "compile_status d FRAGMENT_SHADER = fragment_compiles d"

fun new_shader :: "gl_driver \<Rightarrow> shader_type \<Rightarrow> nat" where
  "new_shader d VERTEX_SHADER = new_vertexShader d"
| "new_shader d FRAGMENT_SHADER = new_fragmentShader d"

definition link_status :: "gl_driver \<Rightarrow> bool \<Rightarrow> bool \<Rightarrow> bool" where
  "link_status d vertex_ok fragment_ok = (vertex_ok \<and> fragment_ok \<and> program_links d)"

text \<open>\<^verbatim>\<open>console.error\<close> appends its first argument to the console.\<close>

type_synonym console = "string list"

section \<open>The custom layer of \<^verbatim>\<open>stars-layer.js\<close>\<close>

text \<open>
  The object returned by \<^verbatim>\<open>createStarsLayer\<close>, with the constants \<^verbatim>\<open>intensity\<close> and
  \<^verbatim>\<open>density\<close> of its closure.  The properties \<^verbatim>\<open>map\<close>, \<^verbatim>\<open>program\<close>,
  \<^verbatim>\<open>vertexBuffer\<close>, \<^verbatim>\<open>indexBuffer\<close> and \<^verbatim>\<open>aPos\<close> do not exist before
  \<^verbatim>\<open>onAdd\<close>.
\<close>

record stars_layer =
  l_id :: string
  l_intensity :: real
  l_density :: real
  l_map :: "host_map option"
  l_program :: "nat option"
  l_vertexBuffer :: "nat option"
  l_indexBuffer :: "nat option"
  l_aPos :: "int option"

definition createStarsLayer :: "options \<Rightarrow> stars_layer" where
  "createStarsLayer opts =
     (let intensity = js_or (opt_intensity opts) 20.0;
          density = js_or (opt_density opts) 0.15
      in \<lparr>l_id = (case opt_id opts of None \<Rightarrow> ''stars'' | Some i \<Rightarrow> if i = [] then ''stars'' else i),
          l_intensity = intensity,
          l_density = density,
          l_map = None,
          l_program = None,
          l_vertexBuffer = None,
          l_indexBuffer = None,
          l_aPos = None\<rparr>)"

text \<open>
  \<^verbatim>\<open>onAdd\<close> of the layer.  A failed compilation or link is reported on the console and
  nothing else is done about it: \<^verbatim>\<open>this.program\<close> holds the program object either way.
\<close>

definition layer_onAdd ::
  "gl_driver \<Rightarrow> host_map \<Rightarrow> stars_layer \<Rightarrow> gl_context \<Rightarrow> console
     \<Rightarrow> stars_layer \<times> gl_context \<times> console" where
  "layer_onAdd d m this gl con =
     (let this = this\<lparr>l_map := Some m\<rparr>;
          vertexShader = new_shader d VERTEX_SHADER;
          con = (if compile_status d VERTEX_SHADER then con
                 else con @ [''Vertex shader compilation error:'']);
          fragmentShader = new_shader d FRAGMENT_SHADER;
          con = (if compile_status d FRAGMENT_SHADER then con
                 else con @ [''Fragment shader compilation error:'']);
          this = this\<lparr>l_program := Some (new_program d)\<rparr>;
          con = (if link_status d (compile_status d VERTEX_SHADER) (compile_status d FRAGMENT_SHADER)
                 then con
                 else con @ [''Program linking error:'']);
          this = this\<lparr>l_vertexBuffer := Some (new_vertexBuffer d)\<rparr>;
          gl = bindBuffer ARRAY_BUFFER (l_vertexBuffer this) gl;
          this = this\<lparr>l_indexBuffer := Some (new_indexBuffer d)\<rparr>;
          gl = bindBuffer ELEMENT_ARRAY_BUFFER (l_indexBuffer this) gl;
          this = this\<lparr>l_aPos := Some (attrib_location gl (new_program d))\<rparr>
      in (this, gl, con))"

text \<open>
  \<^verbatim>\<open>render\<close> of the layer.  Its first statement reads \<^verbatim>\<open>this.map.transform\<close>, which
  raises when \<^verbatim>\<open>this.map\<close> is \<^verbatim>\<open>undefined\<close>.  An \<^verbatim>\<open>undefined\<close> attribute index
  converts to \<open>0\<close>.
\<close>

definition layer_render :: "stars_layer \<Rightarrow> gl_context \<Rightarrow> js_error + gl_context" where
  "layer_render this gl =
     (case l_map this of
        None \<Rightarrow> Inl TypeError
      | Some m \<Rightarrow>
          if projectionTransition (transform m) = 0 then Inr gl
          else
            (let gl = useProgram (l_program this) gl;
                 gl = set_uniforms m (l_intensity this) gl;
                 aPos = (case l_aPos this of None \<Rightarrow> 0 | Some i \<Rightarrow> i);
                 gl = bindBuffer ARRAY_BUFFER (l_vertexBuffer this) gl;
                 gl = enableVertexAttribArray aPos gl;
                 gl = vertexAttribPointer aPos gl;
                 gl = bindBuffer ELEMENT_ARRAY_BUFFER (l_indexBuffer this) gl;
                 gl = disable DEPTH_TEST gl;
                 gl = drawElements gl;
                 gl = enable DEPTH_TEST gl
             in Inr gl))"

section \<open>The class \<^verbatim>\<open>StarsPlugin\<close>\<close>

text \<open>
  The fields of an instance.  \<open>the_map\<close> is \<^verbatim>\<open>this.map\<close>; \<open>customLayer\<close> tells whether
  \<^verbatim>\<open>this._customLayer\<close> has been set.
\<close>

record plugin =
  intensity :: real
  density :: real
  the_map :: "host_map option"
  program :: "nat option"
  vertexBuffer :: "nat option"
  indexBuffer :: "nat option"
  vertexShader :: "nat option"
  fragmentShader :: "nat option"
  customLayer :: bool

text \<open>The constructor.\<close>

definition StarsPlugin :: "options \<Rightarrow> plugin" where
  "StarsPlugin opts =
     \<lparr>intensity = js_or (opt_intensity opts) 20.0,
      density = js_or (opt_density opts) 0.15,
      the_map = None,
      program = None,
      vertexBuffer = None,
      indexBuffer = None,
      vertexShader = None,
      fragmentShader = None,
      customLayer = False\<rparr>"

text \<open>
  \<^verbatim>\<open>_createShader\<close>: on a failed compilation it logs, deletes the shader and returns
  \<^verbatim>\<open>null\<close>.
\<close>

definition createShader :: "gl_driver \<Rightarrow> shader_type \<Rightarrow> console \<Rightarrow> nat option \<times> console" where
  "createShader d type con =
     (let shader = new_shader d type
      in if compile_status d type then (Some shader, con)
         else (None, con @ [''Shader compilation error:'']))"

text \<open>
  \<^verbatim>\<open>_createProgram\<close>.  \<^verbatim>\<open>gl.attachShader\<close> takes a shader object: handed
  \<^verbatim>\<open>null\<close>, which is what \<^verbatim>\<open>_createShader\<close> returns after a failed compilation, the
  WebGL binding raises a \<^verbatim>\<open>TypeError\<close>.  With two shaders, a failed link is logged, the
  program is deleted and \<^verbatim>\<open>null\<close> is returned.
\<close>

definition createProgram ::
  "gl_driver \<Rightarrow> nat option \<Rightarrow> nat option \<Rightarrow> console \<Rightarrow> js_error + (nat option \<times> console)" where
  "createProgram d vertShader fragShader con =
     (let prog = new_program d
      in if vertShader = None then Inl TypeError
         else if fragShader = None then Inl TypeError
         else if link_status d True True then Inr (Some prog, con)
         else Inr (None, con @ [''Program linking error:'']))"

text \<open>
  \<^verbatim>\<open>onAdd(map)\<close>.  The custom layer is added before the first layer of the style, that
  is, at the front.  The result holds the instance, the context, the console and the
  exception that left \<^verbatim>\<open>onAdd\<close>, if one did: nothing catches the \<^verbatim>\<open>TypeError\<close> of
  \<^verbatim>\<open>_createProgram\<close>, and the statements after the call are not reached.
\<close>

definition onAdd ::
  "gl_driver \<Rightarrow> host_map \<Rightarrow> plugin \<Rightarrow> gl_context \<Rightarrow> console
     \<Rightarrow> plugin \<times> gl_context \<times> console \<times> js_error option" where
  "onAdd d m this gl con =
     (let this = this\<lparr>the_map := Some m\<rparr>;
          (shader, con) = createShader d VERTEX_SHADER con;
          this = this\<lparr>vertexShader := shader\<rparr>;
          (shader, con) = createShader d FRAGMENT_SHADER con;
          this = this\<lparr>fragmentShader := shader\<rparr>
      in case createProgram d (vertexShader this) (fragmentShader this) con of
           Inl e \<Rightarrow> (this, gl, con, Some e)
         | Inr (prog, con) \<Rightarrow>
             (let this = this\<lparr>program := prog\<rparr>;
                  this = this\<lparr>vertexBuffer := Some (new_vertexBuffer d)\<rparr>;
                  gl = bindBuffer ARRAY_BUFFER (vertexBuffer this) gl;
                  this = this\<lparr>indexBuffer := Some (new_indexBuffer d)\<rparr>;
                  gl = bindBuffer ELEMENT_ARRAY_BUFFER (indexBuffer this) gl;
                  this = this\<lparr>customLayer := True\<rparr>;
                  this = this\<lparr>the_map := Some (m\<lparr>layers := ''stars-plugin-layer'' # layers m\<rparr>)\<rparr>
              in (this, gl, con, None)))"

text \<open>
  \<^verbatim>\<open>_render(gl)\<close>: the guard, the gate, the snapshot of the GL state, the uniforms, the
  draw and the restoration.  In a condition, a GL enumerant is truthy when it is not \<open>0\<close>
  and an object when it is not \<^verbatim>\<open>null\<close>.
\<close>

definition StarsPlugin_render :: "plugin \<Rightarrow> gl_context \<Rightarrow> js_error + gl_context" where
  "StarsPlugin_render this gl =
     (case the_map this of
        None \<Rightarrow> Inr gl
      | Some m \<Rightarrow>
         (case program this of
            None \<Rightarrow> Inr gl
          | Some prog \<Rightarrow>
              if projectionTransition (transform m) = 0 then Inr gl
              else
                (let oldProgram = current_program gl;
                     oldDepthFunc = depth_func gl;
                     oldDepthMask = depth_writemask gl;
                     oldBlendEnabled = blend gl;
                     oldBlendSrc = blend_src_alpha gl;
                     oldBlendDst = blend_dst_alpha gl;
                     gl = useProgram (Some prog) gl;
                     gl = set_uniforms m (intensity this) gl;
                     aPosLocation = attrib_location gl prog;
                     gl = bindBuffer ARRAY_BUFFER (vertexBuffer this) gl;
                     gl = enableVertexAttribArray aPosLocation gl;
                     gl = vertexAttribPointer aPosLocation gl;
                     gl = bindBuffer ELEMENT_ARRAY_BUFFER (indexBuffer this) gl;
                     gl = depthFunc GL_ALWAYS gl;
                     gl = depthMask False gl;
                     gl = enable BLEND gl;
                     gl = blendFunc GL_SRC_ALPHA GL_ONE_MINUS_SRC_ALPHA gl;
                     gl = drawElements gl;
                     gl = depthFunc oldDepthFunc gl;
                     gl = depthMask oldDepthMask gl;
                     gl = (if oldBlendEnabled then gl else disable BLEND gl);
                     gl = (if oldBlendSrc \<noteq> 0 \<and> oldBlendDst \<noteq> 0
                           then blendFunc oldBlendSrc oldBlendDst gl else gl);
                     gl = disableVertexAttribArray aPosLocation gl;
                     gl = bindBuffer ARRAY_BUFFER None gl;
                     gl = bindBuffer ELEMENT_ARRAY_BUFFER None gl;
                     gl = (if oldProgram \<noteq> None then useProgram oldProgram gl else gl)
                 in Inr gl)))"

text \<open>
  \<^verbatim>\<open>onRemove()\<close>: the layer is taken out of the style, the GL objects are deleted (the
  list of their handles is returned), and \<^verbatim>\<open>this.map\<close> and \<^verbatim>\<open>this.program\<close> are
  cleared.
\<close>

definition onRemove :: "plugin \<Rightarrow> plugin \<times> host_map option \<times> nat option list" where
  "onRemove this =
     (let host =
            (case the_map this of
               None \<Rightarrow> None
             | Some m \<Rightarrow>
                 if customLayer this
                 then Some (m\<lparr>layers := removeAll ''stars-plugin-layer'' (layers m)\<rparr>)
                 else Some m);
          deleted =
            (if program this \<noteq> None \<and> the_map this \<noteq> None
             then [program this, vertexShader this, fragmentShader this,
                   vertexBuffer this, indexBuffer this]
             else []);
          this = this\<lparr>the_map := None\<rparr>;
          this = this\<lparr>program := None\<rparr>
      in (this, host, deleted))"

definition setIntensity :: "real \<Rightarrow> plugin \<Rightarrow> plugin" where
  "setIntensity i this = this\<lparr>intensity := i\<rparr>"

text \<open>
  \<^verbatim>\<open>setDensity\<close> stores the value and warns; the shader is not rebuilt.
\<close>

definition setDensity :: "real \<Rightarrow> plugin \<Rightarrow> console \<Rightarrow> plugin \<times> console" where
  "setDensity dn this con =
     (this\<lparr>density := dn\<rparr>, con @ [''Changing density requires recreating the plugin''])"

text \<open>
  The WebGL context as it is created: no program in use, depth function \<^verbatim>\<open>LESS\<close>, depth
  writes on, blending off with the factors \<^verbatim>\<open>ONE\<close> and \<^verbatim>\<open>ZERO\<close>.  A map drawing with
  depth test, an identity transform and the globe projection fully on, for examples.
\<close>

definition initial_uniforms :: uniforms where
  "initial_uniforms =
     \<lparr>u_inv_proj_matrix = (\<lambda>i. 0), u_globe_position = (0, 0, 0), u_globe_radius = 0,
      u_stars_intensity = 0, u_globe_center = (0, 0), u_camera_angles = (0, 0, 0)\<rparr>"

definition initial_gl :: gl_context where
  "initial_gl =
     \<lparr>current_program = None, depth_test = False, depth_func = GL_LESS,
      depth_writemask = True, blend = False,
      blend_src_rgb = GL_ONE, blend_dst_rgb = GL_ZERO,
      blend_src_alpha = GL_ONE, blend_dst_alpha = GL_ZERO,
      array_buffer = None, element_array_buffer = None,
      attrib_enabled = (\<lambda>i. False), attrib_buffer = (\<lambda>i. None),
      attrib_location = (\<lambda>p. 0), uniform_store = (\<lambda>p. initial_uniforms),
      draw_calls = 0\<rparr>"

definition identity_mat4 :: mat4 where
  "identity_mat4 = (\<lambda>i. if i = 0 \<or> i = 5 \<or> i = 10 \<or> i = 15 then 1 else 0)"

definition globe_map :: host_map where
  "globe_map =
     \<lparr>transform =
        \<lparr>projectionTransition = 1,
         modelViewProjectionMatrix = identity_mat4,
         inverseProjectionMatrix = identity_mat4,
         worldSize = 512, center_lng = 0, center_lat = 0,
         pitchInRadians = Some 0, pitch = 0,
         bearingInRadians = Some 0, bearing = 0,
         rollInRadians = Some 0\<rparr>,
      layers = [''background''],
      glmatrix = True\<rparr>"

definition good_driver :: gl_driver where
  "good_driver =
     \<lparr>vertex_compiles = True, fragment_compiles = True, program_links = True,
      new_vertexShader = 1, new_fragmentShader = 2, new_program = 3,
      new_vertexBuffer = 4, new_indexBuffer = 5\<rparr>"

definition no_options :: options where
  "no_options = \<lparr>opt_id = None, opt_intensity = None, opt_density = None\<rparr>"

text \<open>
  Instances for examples: a plugin and a layer attached to \<^const>\<open>globe_map\<close> with a
  working driver, the same map with the globe projection off, and three drivers that
  fail in one place each.
\<close>

definition attached_plugin :: plugin where
  "attached_plugin = fst (onAdd good_driver globe_map (StarsPlugin no_options) initial_gl [])"

definition attached_layer :: stars_layer where
  "attached_layer = fst (layer_onAdd good_driver globe_map (createStarsLayer no_options) initial_gl [])"

definition flat_map :: host_map where
  "flat_map = globe_map\<lparr>transform := (transform globe_map)\<lparr>projectionTransition := 0\<rparr>\<rparr>"

definition vertex_broken :: gl_driver where
  "vertex_broken = good_driver\<lparr>vertex_compiles := False\<rparr>"

definition fragment_broken :: gl_driver where
  "fragment_broken = good_driver\<lparr>fragment_compiles := False\<rparr>"

definition link_broken :: gl_driver where
  "link_broken = good_driver\<lparr>program_links := False\<rparr>"

section \<open>Instances and auxiliary definitions for the proofs\<close>




text \<open>
  For a bound on \<open>sin 12.9898\<close>, the argument of the presence hash of the cell
  \<open>(1, 0)\<close>: the terms \<open>a\<^sup>2\<^sup>k\<^sup>+\<^sup>1 / (2k+1)!\<close> of the sine series at \<open>a = 12.9898\<close> and its
  alternating partial sums.
\<close>

definition sin_term :: "nat \<Rightarrow> real" where
  "sin_term k = (64949 / 5000) ^ (2 * k + 1) / fact (2 * k + 1)"

fun sin_sum :: "nat \<Rightarrow> real" where
  "sin_sum 0 = sin_term 0"
| "sin_sum (Suc k) = sin_sum k + (- 1) ^ Suc k * sin_term (Suc k)"

text \<open>
  The \<^verbatim>\<open>uv\<close> of the point at the local position \<open>(fx, fy)\<close> of the cell \<open>(i, j)\<close>.
  Two pixels of the cell \<open>(1, 0)\<close>: the centre of its star, and a point half a cell
  above or below it.
\<close>

definition pixel_uv :: "int \<Rightarrow> int \<Rightarrow> real \<Rightarrow> real \<Rightarrow> vec2" where
  "pixel_uv i j fx fy = ((of_int i + fx) / 200, (of_int j + fy) / 200)"

definition star_centre_uv :: vec2 where
  "star_centre_uv = pixel_uv 1 0 (x2 (offsetHash (1, 0))) (y2 (offsetHash (1, 0)))"

definition star_far_uv :: vec2 where
  "star_far_uv =
     pixel_uv 1 0 (x2 (offsetHash (1, 0))) (fract (y2 (offsetHash (1, 0)) + 1 / 2))"

section \<open>Coordinate transform: properties\<close>

lemma rotate_ray_steps:
  "rotate_ray (p, b, r) (clng, clat) ray =
     spec_rotation p b r clat clng ray"
  by (simp only: rotate_ray_def spec_rotation_def rotate_X_def rotate_Y_def rotate_Z_def
      rotate_lat_def rotate_lng_def Let_def fst_conv snd_conv)

text \<open>
  Each step is a rotation: it keeps the component along its axis and the length of the
  vector.  The latitude step turns about the X axis and the longitude step about the
  Y axis, both in the sense opposite to the camera steps.
\<close>

lemma sq_rot: "(p * c - q * s) * (p * c - q * s) + (p * s + q * c) * (p * s + q * c)
    = (p * p + q * q) * (s * s + c * c)" for p q c s :: real
  by (simp add: algebra_simps)

lemma sin_cos_sq: "sin a * sin a + cos a * cos a = (1::real)"
  using sin_cos_squared_add [of a] by (simp add: power2_eq_square)

lemma length3_rotate_X: "length3 (rotate_X a v) = length3 v"
proof -
  have "x3 v * x3 v + (y3 v * cos a - z3 v * sin a) * (y3 v * cos a - z3 v * sin a)
          + (y3 v * sin a + z3 v * cos a) * (y3 v * sin a + z3 v * cos a)
        = x3 v * x3 v + (y3 v * y3 v + z3 v * z3 v) * (sin a * sin a + cos a * cos a)"
    using sq_rot [of "y3 v" "cos a" "z3 v" "sin a"] by simp
  then show ?thesis
    by (simp add: length3_def rotate_X_def sin_cos_sq add.assoc)
qed

lemma length3_rotate_Y: "length3 (rotate_Y a v) = length3 v"
proof -
  have "(x3 v * cos a - z3 v * sin a) * (x3 v * cos a - z3 v * sin a) + y3 v * y3 v
          + (x3 v * sin a + z3 v * cos a) * (x3 v * sin a + z3 v * cos a)
        = (x3 v * x3 v + z3 v * z3 v) * (sin a * sin a + cos a * cos a) + y3 v * y3 v"
    using sq_rot [of "x3 v" "cos a" "z3 v" "sin a"] by simp
  then show ?thesis
    by (simp add: length3_def rotate_Y_def sin_cos_sq add.commute add.left_commute)
qed

lemma length3_rotate_Z: "length3 (rotate_Z a v) = length3 v"
proof -
  have "(x3 v * cos a - y3 v * sin a) * (x3 v * cos a - y3 v * sin a)
          + (x3 v * sin a + y3 v * cos a) * (x3 v * sin a + y3 v * cos a) + z3 v * z3 v
        = (x3 v * x3 v + y3 v * y3 v) * (sin a * sin a + cos a * cos a) + z3 v * z3 v"
    using sq_rot [of "x3 v" "cos a" "y3 v" "sin a"] by simp
  then show ?thesis
    by (simp add: length3_def rotate_Z_def sin_cos_sq)
qed

lemma rotate_lat_is_X: "rotate_lat a v = rotate_X (- a) v"
  by (simp add: rotate_lat_def rotate_X_def)

lemma rotate_lng_is_Y: "rotate_lng a v = rotate_Y (- a) v"
  by (simp add: rotate_lng_def rotate_Y_def)

lemma axis_kept:
  "x3 (rotate_X a v) = x3 v" "y3 (rotate_Y a v) = y3 v" "z3 (rotate_Z a v) = z3 v"
  "x3 (rotate_lat a v) = x3 v" "y3 (rotate_lng a v) = y3 v"
  by (simp_all add: rotate_X_def rotate_Y_def rotate_Z_def rotate_lat_def rotate_lng_def)

lemma length3_spec_rotation:
  "length3 (spec_rotation p b r clat clng ray) = length3 ray"
  by (simp add: spec_rotation_def rotate_lat_is_X rotate_lng_is_Y
      length3_rotate_X length3_rotate_Y length3_rotate_Z)

text \<open>
  Claim C5.  For every input ray the coordinate transform of the shader is the
  composition of the five rotations in the order X axis by pitch, Y axis by bearing,
  Z axis by roll, globe-centre latitude, globe-centre longitude, and it returns
  \<open>lng = atan(x, z)\<close> and \<open>lat = asin(y)\<close> of the vector rotated in this way.
\<close>

theorem coord_transform_order:
  "coord_transform (p, b, r) (clng, clat) ray =
     (glsl_atan (x3 (rotate_lng clng (rotate_lat clat
                   (rotate_Z r (rotate_Y b (rotate_X p ray))))))
                (z3 (rotate_lng clng (rotate_lat clat
                   (rotate_Z r (rotate_Y b (rotate_X p ray)))))),
      arcsin (y3 (rotate_lng clng (rotate_lat clat
                   (rotate_Z r (rotate_Y b (rotate_X p ray)))))))"
  by (simp add: coord_transform_def spherical_def rotate_ray_steps spec_rotation_def)

text \<open>
  Claim C6.  With pitch, bearing and roll all zero and the globe centre at \<open>(0, 0)\<close>
  the rotated vector is the input ray, for every ray.
\<close>

theorem rotate_ray_identity:
  "rotate_ray (0, 0, 0) (0, 0) ray = ray"
  by (simp add: rotate_ray_def)

text \<open>
  The \<^verbatim>\<open>uv\<close> of a direction stays in the unit square in its second component, and the
  south pole falls into the lowest row of the grid, the row \<open>0\<close>.
\<close>

lemma uv_of_range:
  assumes "- 1 \<le> y3 r" "y3 r \<le> 1"
  shows "0 \<le> y2 (uv_of (spherical r))" "y2 (uv_of (spherical r)) \<le> 1"
proof -
  have "- (pi / 2) \<le> arcsin (y3 r)" "arcsin (y3 r) \<le> pi / 2"
    using arcsin_bounded [OF assms] by simp_all
  then show "0 \<le> y2 (uv_of (spherical r))" "y2 (uv_of (spherical r)) \<le> 1"
    by (simp_all add: uv_of_def spherical_def PI_def divide_simps)
qed

lemma uv_of_south_pole:
  "y2 (uv_of (spherical (0, - 1, 0))) = 0"
  "y2 (gridPos_of (uv_of (spherical (0, - 1, 0)))) = 0"
  by (simp_all add: uv_of_def spherical_def PI_def gridPos_of_def floor2_def)

section \<open>Rendering: the effect of one call\<close>

lemmas gl_defs = useProgram_def depthFunc_def depthMask_def blendFunc_def
  enableVertexAttribArray_def disableVertexAttribArray_def vertexAttribPointer_def
  uniform_def drawElements_def

lemma current_program_ops:
  "current_program (useProgram prog gl) = prog"
  "current_program (depthFunc f gl) = current_program gl"
  "current_program (depthMask flag gl) = current_program gl"
  "current_program (blendFunc s d gl) = current_program gl"
  "current_program (enableVertexAttribArray i gl) = current_program gl"
  "current_program (disableVertexAttribArray i gl) = current_program gl"
  "current_program (vertexAttribPointer i gl) = current_program gl"
  "current_program (uniform upd gl) = current_program gl"
  "current_program (drawElements gl) = current_program gl"
  by (simp_all add: gl_defs split: option.splits)

lemma current_program_set_uniforms: "current_program (set_uniforms m i gl) = current_program gl"
  by (simp add: set_uniforms_def Let_def current_program_ops)

lemma depth_test_ops:
  "depth_test (useProgram prog gl) = depth_test gl"
  "depth_test (depthFunc f gl) = depth_test gl"
  "depth_test (depthMask flag gl) = depth_test gl"
  "depth_test (blendFunc s d gl) = depth_test gl"
  "depth_test (enableVertexAttribArray i gl) = depth_test gl"
  "depth_test (disableVertexAttribArray i gl) = depth_test gl"
  "depth_test (vertexAttribPointer i gl) = depth_test gl"
  "depth_test (uniform upd gl) = depth_test gl"
  "depth_test (drawElements gl) = depth_test gl"
  by (simp_all add: gl_defs split: option.splits)

lemma depth_test_set_uniforms: "depth_test (set_uniforms m i gl) = depth_test gl"
  by (simp add: set_uniforms_def Let_def depth_test_ops)

lemma depth_func_ops:
  "depth_func (useProgram prog gl) = depth_func gl"
  "depth_func (depthFunc f gl) = f"
  "depth_func (depthMask flag gl) = depth_func gl"
  "depth_func (blendFunc s d gl) = depth_func gl"
  "depth_func (enableVertexAttribArray i gl) = depth_func gl"
  "depth_func (disableVertexAttribArray i gl) = depth_func gl"
  "depth_func (vertexAttribPointer i gl) = depth_func gl"
  "depth_func (uniform upd gl) = depth_func gl"
  "depth_func (drawElements gl) = depth_func gl"
  by (simp_all add: gl_defs split: option.splits)

lemma depth_func_set_uniforms: "depth_func (set_uniforms m i gl) = depth_func gl"
  by (simp add: set_uniforms_def Let_def depth_func_ops)

lemma depth_writemask_ops:
  "depth_writemask (useProgram prog gl) = depth_writemask gl"
  "depth_writemask (depthFunc f gl) = depth_writemask gl"
  "depth_writemask (depthMask flag gl) = flag"
  "depth_writemask (blendFunc s d gl) = depth_writemask gl"
  "depth_writemask (enableVertexAttribArray i gl) = depth_writemask gl"
  "depth_writemask (disableVertexAttribArray i gl) = depth_writemask gl"
  "depth_writemask (vertexAttribPointer i gl) = depth_writemask gl"
  "depth_writemask (uniform upd gl) = depth_writemask gl"
  "depth_writemask (drawElements gl) = depth_writemask gl"
  by (simp_all add: gl_defs split: option.splits)

lemma depth_writemask_set_uniforms: "depth_writemask (set_uniforms m i gl) = depth_writemask gl"
  by (simp add: set_uniforms_def Let_def depth_writemask_ops)

lemma blend_ops:
  "blend (useProgram prog gl) = blend gl"
  "blend (depthFunc f gl) = blend gl"
  "blend (depthMask flag gl) = blend gl"
  "blend (blendFunc s d gl) = blend gl"
  "blend (enableVertexAttribArray i gl) = blend gl"
  "blend (disableVertexAttribArray i gl) = blend gl"
  "blend (vertexAttribPointer i gl) = blend gl"
  "blend (uniform upd gl) = blend gl"
  "blend (drawElements gl) = blend gl"
  by (simp_all add: gl_defs split: option.splits)

lemma blend_set_uniforms: "blend (set_uniforms m i gl) = blend gl"
  by (simp add: set_uniforms_def Let_def blend_ops)

lemma blend_src_rgb_ops:
  "blend_src_rgb (useProgram prog gl) = blend_src_rgb gl"
  "blend_src_rgb (depthFunc f gl) = blend_src_rgb gl"
  "blend_src_rgb (depthMask flag gl) = blend_src_rgb gl"
  "blend_src_rgb (blendFunc s d gl) = s"
  "blend_src_rgb (enableVertexAttribArray i gl) = blend_src_rgb gl"
  "blend_src_rgb (disableVertexAttribArray i gl) = blend_src_rgb gl"
  "blend_src_rgb (vertexAttribPointer i gl) = blend_src_rgb gl"
  "blend_src_rgb (uniform upd gl) = blend_src_rgb gl"
  "blend_src_rgb (drawElements gl) = blend_src_rgb gl"
  by (simp_all add: gl_defs split: option.splits)

lemma blend_src_rgb_set_uniforms: "blend_src_rgb (set_uniforms m i gl) = blend_src_rgb gl"
  by (simp add: set_uniforms_def Let_def blend_src_rgb_ops)

lemma blend_dst_rgb_ops:
  "blend_dst_rgb (useProgram prog gl) = blend_dst_rgb gl"
  "blend_dst_rgb (depthFunc f gl) = blend_dst_rgb gl"
  "blend_dst_rgb (depthMask flag gl) = blend_dst_rgb gl"
  "blend_dst_rgb (blendFunc s d gl) = d"
  "blend_dst_rgb (enableVertexAttribArray i gl) = blend_dst_rgb gl"
  "blend_dst_rgb (disableVertexAttribArray i gl) = blend_dst_rgb gl"
  "blend_dst_rgb (vertexAttribPointer i gl) = blend_dst_rgb gl"
  "blend_dst_rgb (uniform upd gl) = blend_dst_rgb gl"
  "blend_dst_rgb (drawElements gl) = blend_dst_rgb gl"
  by (simp_all add: gl_defs split: option.splits)

lemma blend_dst_rgb_set_uniforms: "blend_dst_rgb (set_uniforms m i gl) = blend_dst_rgb gl"
  by (simp add: set_uniforms_def Let_def blend_dst_rgb_ops)

lemma blend_src_alpha_ops:
  "blend_src_alpha (useProgram prog gl) = blend_src_alpha gl"
  "blend_src_alpha (depthFunc f gl) = blend_src_alpha gl"
  "blend_src_alpha (depthMask flag gl) = blend_src_alpha gl"
  "blend_src_alpha (blendFunc s d gl) = s"
  "blend_src_alpha (enableVertexAttribArray i gl) = blend_src_alpha gl"
  "blend_src_alpha (disableVertexAttribArray i gl) = blend_src_alpha gl"
  "blend_src_alpha (vertexAttribPointer i gl) = blend_src_alpha gl"
  "blend_src_alpha (uniform upd gl) = blend_src_alpha gl"
  "blend_src_alpha (drawElements gl) = blend_src_alpha gl"
  by (simp_all add: gl_defs split: option.splits)

lemma blend_src_alpha_set_uniforms: "blend_src_alpha (set_uniforms m i gl) = blend_src_alpha gl"
  by (simp add: set_uniforms_def Let_def blend_src_alpha_ops)

lemma blend_dst_alpha_ops:
  "blend_dst_alpha (useProgram prog gl) = blend_dst_alpha gl"
  "blend_dst_alpha (depthFunc f gl) = blend_dst_alpha gl"
  "blend_dst_alpha (depthMask flag gl) = blend_dst_alpha gl"
  "blend_dst_alpha (blendFunc s d gl) = d"
  "blend_dst_alpha (enableVertexAttribArray i gl) = blend_dst_alpha gl"
  "blend_dst_alpha (disableVertexAttribArray i gl) = blend_dst_alpha gl"
  "blend_dst_alpha (vertexAttribPointer i gl) = blend_dst_alpha gl"
  "blend_dst_alpha (uniform upd gl) = blend_dst_alpha gl"
  "blend_dst_alpha (drawElements gl) = blend_dst_alpha gl"
  by (simp_all add: gl_defs split: option.splits)

lemma blend_dst_alpha_set_uniforms: "blend_dst_alpha (set_uniforms m i gl) = blend_dst_alpha gl"
  by (simp add: set_uniforms_def Let_def blend_dst_alpha_ops)

lemma draw_calls_ops:
  "draw_calls (useProgram prog gl) = draw_calls gl"
  "draw_calls (depthFunc f gl) = draw_calls gl"
  "draw_calls (depthMask flag gl) = draw_calls gl"
  "draw_calls (blendFunc s d gl) = draw_calls gl"
  "draw_calls (enableVertexAttribArray i gl) = draw_calls gl"
  "draw_calls (disableVertexAttribArray i gl) = draw_calls gl"
  "draw_calls (vertexAttribPointer i gl) = draw_calls gl"
  "draw_calls (uniform upd gl) = draw_calls gl"
  "draw_calls (drawElements gl) = draw_calls gl + 1"
  by (simp_all add: gl_defs split: option.splits)

lemma draw_calls_set_uniforms: "draw_calls (set_uniforms m i gl) = draw_calls gl"
  by (simp add: set_uniforms_def Let_def draw_calls_ops)

lemmas frame_simps =
  current_program_ops depth_test_ops depth_func_ops depth_writemask_ops blend_ops
  blend_src_rgb_ops blend_dst_rgb_ops blend_src_alpha_ops blend_dst_alpha_ops draw_calls_ops
  current_program_set_uniforms depth_test_set_uniforms depth_func_set_uniforms
  depth_writemask_set_uniforms blend_set_uniforms blend_src_rgb_set_uniforms
  blend_dst_rgb_set_uniforms blend_src_alpha_set_uniforms blend_dst_alpha_set_uniforms
  draw_calls_set_uniforms

text \<open>
  The state after a call of \<^verbatim>\<open>_render\<close> that reaches the draw.  The depth function, the
  depth write mask and the blend flag are put back.  The program is put back only when
  one was in use, and the blend factors only when the two saved alpha factors are both
  different from \<open>0\<close>, the value of \<^verbatim>\<open>gl.ZERO\<close>; what is put back into the RGB factors
  is the saved alpha factors.
\<close>

lemma render_after:
  assumes "the_map this = Some m" and "program this = Some prog"
    and "projectionTransition (transform m) \<noteq> 0"
  shows "\<exists>gl'. StarsPlugin_render this gl = Inr gl'
     \<and> depth_func gl' = depth_func gl
     \<and> depth_writemask gl' = depth_writemask gl
     \<and> blend gl' = blend gl
     \<and> depth_test gl' = depth_test gl
     \<and> current_program gl' = (if current_program gl \<noteq> None then current_program gl else Some prog)
     \<and> blend_src_alpha gl' =
         (if blend_src_alpha gl \<noteq> 0 \<and> blend_dst_alpha gl \<noteq> 0 then blend_src_alpha gl else GL_SRC_ALPHA)
     \<and> blend_dst_alpha gl' =
         (if blend_src_alpha gl \<noteq> 0 \<and> blend_dst_alpha gl \<noteq> 0 then blend_dst_alpha gl
          else GL_ONE_MINUS_SRC_ALPHA)
     \<and> blend_src_rgb gl' =
         (if blend_src_alpha gl \<noteq> 0 \<and> blend_dst_alpha gl \<noteq> 0 then blend_src_alpha gl else GL_SRC_ALPHA)
     \<and> blend_dst_rgb gl' =
         (if blend_src_alpha gl \<noteq> 0 \<and> blend_dst_alpha gl \<noteq> 0 then blend_dst_alpha gl
          else GL_ONE_MINUS_SRC_ALPHA)
     \<and> draw_calls gl' = draw_calls gl + 1"
  using assms
  by (simp add: StarsPlugin_render_def Let_def frame_simps)

text \<open>The layer of \<^verbatim>\<open>stars-layer.js\<close> saves nothing.\<close>

lemma layer_render_after:
  assumes "l_map lay = Some m" and "projectionTransition (transform m) \<noteq> 0"
  shows "\<exists>gl'. layer_render lay gl = Inr gl'
     \<and> current_program gl' = l_program lay
     \<and> depth_test gl' = True
     \<and> draw_calls gl' = draw_calls gl + 1"
  using assms
  by (simp add: layer_render_def Let_def frame_simps)

lemma attached_plugin_fields:
  "the_map attached_plugin = Some (globe_map\<lparr>layers := ''stars-plugin-layer'' # layers globe_map\<rparr>)"
  "program attached_plugin = Some 3"
  by (simp_all add: attached_plugin_def onAdd_def createShader_def createProgram_def
      link_status_def good_driver_def StarsPlugin_def Let_def)

lemma attached_layer_fields:
  "l_map attached_layer = Some globe_map"
  "l_program attached_layer = Some 3"
  by (simp_all add: attached_layer_def layer_onAdd_def good_driver_def createStarsLayer_def Let_def)

text \<open>
  Claim C1, evaluated on the context as WebGL creates it (blend factors \<^verbatim>\<open>ONE\<close> and
  \<^verbatim>\<open>ZERO\<close>, no program in use): after \<^verbatim>\<open>_render\<close> has drawn, the blend factors are
  \<^verbatim>\<open>SRC_ALPHA\<close> and \<^verbatim>\<open>ONE_MINUS_SRC_ALPHA\<close> and the program of the plugin is still in
  use.  The saved destination factor is \<^verbatim>\<open>gl.ZERO\<close>, which is \<open>0\<close> and so falsy in
  \<^verbatim>\<open>if (oldBlendSrc && oldBlendDst)\<close>.
\<close>

theorem render_blend_func_not_restored:
  "\<exists>gl'. StarsPlugin_render attached_plugin initial_gl = Inr gl'
     \<and> blend_src_alpha initial_gl = GL_ONE \<and> blend_dst_alpha initial_gl = GL_ZERO
     \<and> blend_src_alpha gl' = GL_SRC_ALPHA \<and> blend_dst_alpha gl' = GL_ONE_MINUS_SRC_ALPHA
     \<and> current_program initial_gl = None \<and> current_program gl' = Some 3"
proof -
  have "projectionTransition (transform (globe_map\<lparr>layers := ''stars-plugin-layer'' # layers globe_map\<rparr>)) \<noteq> 0"
    by (simp add: globe_map_def)
  from render_after [OF attached_plugin_fields this, of initial_gl]
  show ?thesis
    by (auto simp add: initial_gl_def GL_ZERO_def GL_ONE_def)
qed

text \<open>
  Claim C2.  With a map at hand, a frame whose \<^verbatim>\<open>projectionTransition\<close> is exactly
  \<open>0\<close> leaves the context as it was: no draw call, no state written.  A frame whose
  \<^verbatim>\<open>projectionTransition\<close> is positive issues exactly one \<^verbatim>\<open>drawElements\<close>, in the
  plugin when its program exists.  Both components.
\<close>

theorem render_gate:
  assumes "the_map this = Some m" and "l_map lay = Some m'"
  shows "(projectionTransition (transform m) = 0 \<longrightarrow> StarsPlugin_render this gl = Inr gl)
       \<and> (projectionTransition (transform m') = 0 \<longrightarrow> layer_render lay gl = Inr gl)
       \<and> (0 < projectionTransition (transform m) \<longrightarrow> program this \<noteq> None \<longrightarrow>
            (\<exists>gl'. StarsPlugin_render this gl = Inr gl' \<and> draw_calls gl' = draw_calls gl + 1))
       \<and> (0 < projectionTransition (transform m') \<longrightarrow>
            (\<exists>gl'. layer_render lay gl = Inr gl' \<and> draw_calls gl' = draw_calls gl + 1))"
proof -
  have "StarsPlugin_render this gl = Inr gl" if "projectionTransition (transform m) = 0"
    using assms that by (simp add: StarsPlugin_render_def split: option.splits)
  moreover have "layer_render lay gl = Inr gl" if "projectionTransition (transform m') = 0"
    using assms that by (simp add: layer_render_def)
  moreover have "\<exists>gl'. StarsPlugin_render this gl = Inr gl' \<and> draw_calls gl' = draw_calls gl + 1"
    if "0 < projectionTransition (transform m)" "program this \<noteq> None"
  proof -
    from that obtain prog where "program this = Some prog" by auto
    from render_after [OF assms(1) this, of gl] that show ?thesis by auto
  qed
  moreover have "\<exists>gl'. layer_render lay gl = Inr gl' \<and> draw_calls gl' = draw_calls gl + 1"
    if "0 < projectionTransition (transform m')"
    using layer_render_after [OF assms(2), of gl] that by auto
  ultimately show ?thesis
    by blast
qed

theorem render_gate_witness:
  "StarsPlugin_render (attached_plugin\<lparr>the_map := Some flat_map\<rparr>) initial_gl = Inr initial_gl
   \<and> layer_render (attached_layer\<lparr>l_map := Some flat_map\<rparr>) initial_gl = Inr initial_gl
   \<and> (\<exists>gl'. StarsPlugin_render (attached_plugin\<lparr>the_map := Some globe_map\<rparr>) initial_gl = Inr gl'
          \<and> draw_calls gl' = 1)
   \<and> (\<exists>gl'. layer_render attached_layer initial_gl = Inr gl' \<and> draw_calls gl' = 1)"
  using render_gate [of "attached_plugin\<lparr>the_map := Some flat_map\<rparr>" flat_map
      "attached_layer\<lparr>l_map := Some flat_map\<rparr>" flat_map initial_gl]
    render_gate [of "attached_plugin\<lparr>the_map := Some globe_map\<rparr>" globe_map
      attached_layer globe_map initial_gl]
  by (simp add: attached_plugin_fields attached_layer_fields flat_map_def globe_map_def initial_gl_def)

section \<open>Lifecycle\<close>

text \<open>
  The guard \<^verbatim>\<open>if (!this.map || !this.program) return;\<close> of the plugin.  A
  \<^verbatim>\<open>StarsPlugin\<close> that is fresh from its constructor, or that \<^verbatim>\<open>onRemove\<close> has
  detached, or whose \<^verbatim>\<open>map\<close> or \<^verbatim>\<open>program\<close> is \<^verbatim>\<open>null\<close> for any other reason,
  renders nothing: \<^verbatim>\<open>_render\<close> returns normally and the context is the one it was
  given.
\<close>

theorem plugin_render_noop_detached:
  "StarsPlugin_render (StarsPlugin opts) gl = Inr gl
   \<and> StarsPlugin_render (fst (onRemove this)) gl = Inr gl
   \<and> (the_map that = None \<or> program that = None \<longrightarrow> StarsPlugin_render that gl = Inr gl)"
  by (auto simp add: StarsPlugin_render_def StarsPlugin_def onRemove_def Let_def split: option.splits)

theorem plugin_render_noop_detached_witness:
  "StarsPlugin_render (StarsPlugin no_options) initial_gl = Inr initial_gl
   \<and> StarsPlugin_render (fst (onRemove attached_plugin)) initial_gl = Inr initial_gl
   \<and> StarsPlugin_render (attached_plugin\<lparr>program := None\<rparr>) initial_gl = Inr initial_gl"
  using plugin_render_noop_detached [of no_options initial_gl attached_plugin
      "attached_plugin\<lparr>program := None\<rparr>"]
  by simp

text \<open>
  Claim C8.  Calling \<^verbatim>\<open>render\<close> on a component that is not attached is to be a no-op
  that raises nothing.  The layer of \<^verbatim>\<open>stars-layer.js\<close> has no guard like the
  plugin's: on a layer fresh from \<^verbatim>\<open>createStarsLayer\<close>, before \<^verbatim>\<open>onAdd\<close>,
  \<^verbatim>\<open>render\<close> raises a \<^verbatim>\<open>TypeError\<close>.
\<close>

theorem layer_render_before_onAdd_raises:
  "layer_render (createStarsLayer no_options) initial_gl = Inl TypeError"
  by (simp add: layer_render_def createStarsLayer_def Let_def)

text \<open>
  Failures at attach time in the plugin.  When a shader does not compile, \<^verbatim>\<open>onAdd\<close> logs
  \<^verbatim>\<open>Shader compilation error:\<close> and the handle of that shader is \<^verbatim>\<open>null\<close>; the
  \<^verbatim>\<open>TypeError\<close> that \<^verbatim>\<open>gl.attachShader\<close> raises on it then leaves \<^verbatim>\<open>onAdd\<close>, with
  \<^verbatim>\<open>this.program\<close> as it was and no layer added to the map.  When both shaders compile
  and the program does not link, \<^verbatim>\<open>onAdd\<close> logs \<^verbatim>\<open>Program linking error:\<close> and
  returns normally, \<^verbatim>\<open>this.program\<close> is \<^verbatim>\<open>null\<close>, and \<^verbatim>\<open>_render\<close> is a no-op in
  every later state in which \<^verbatim>\<open>this.program\<close> is still \<^verbatim>\<open>null\<close>.
\<close>

theorem plugin_attach_failure:
  "(\<not> vertex_compiles d \<longrightarrow>
      vertexShader (fst (onAdd d m this gl con)) = None
      \<and> ''Shader compilation error:'' \<in> set (fst (snd (snd (onAdd d m this gl con))))
      \<and> snd (snd (snd (onAdd d m this gl con))) = Some TypeError
      \<and> program (fst (onAdd d m this gl con)) = program this
      \<and> customLayer (fst (onAdd d m this gl con)) = customLayer this)
   \<and> (\<not> fragment_compiles d \<longrightarrow>
      fragmentShader (fst (onAdd d m this gl con)) = None
      \<and> ''Shader compilation error:'' \<in> set (fst (snd (snd (onAdd d m this gl con))))
      \<and> snd (snd (snd (onAdd d m this gl con))) = Some TypeError
      \<and> program (fst (onAdd d m this gl con)) = program this
      \<and> customLayer (fst (onAdd d m this gl con)) = customLayer this)
   \<and> (vertex_compiles d \<and> fragment_compiles d \<and> \<not> program_links d \<longrightarrow>
      program (fst (onAdd d m this gl con)) = None
      \<and> ''Program linking error:'' \<in> set (fst (snd (snd (onAdd d m this gl con))))
      \<and> snd (snd (snd (onAdd d m this gl con))) = None
      \<and> (\<forall>later g. program later = program (fst (onAdd d m this gl con))
            \<longrightarrow> StarsPlugin_render later g = Inr g))"
  by (auto simp add: onAdd_def createShader_def createProgram_def link_status_def Let_def
      StarsPlugin_render_def split: option.splits)

theorem plugin_attach_failure_witness:
  "vertexShader (fst (onAdd vertex_broken globe_map (StarsPlugin no_options) initial_gl [])) = None
   \<and> snd (snd (snd (onAdd vertex_broken globe_map (StarsPlugin no_options) initial_gl [])))
        = Some TypeError
   \<and> fragmentShader (fst (onAdd fragment_broken globe_map (StarsPlugin no_options) initial_gl [])) = None
   \<and> snd (snd (snd (onAdd fragment_broken globe_map (StarsPlugin no_options) initial_gl [])))
        = Some TypeError
   \<and> program (fst (onAdd link_broken globe_map (StarsPlugin no_options) initial_gl [])) = None
   \<and> fst (snd (snd (onAdd link_broken globe_map (StarsPlugin no_options) initial_gl [])))
        = [''Program linking error:'']
   \<and> snd (snd (snd (onAdd link_broken globe_map (StarsPlugin no_options) initial_gl []))) = None
   \<and> StarsPlugin_render (fst (onAdd link_broken globe_map (StarsPlugin no_options) initial_gl []))
        initial_gl = Inr initial_gl"
  using plugin_attach_failure [of vertex_broken globe_map "StarsPlugin no_options" initial_gl "[]"]
    plugin_attach_failure [of fragment_broken globe_map "StarsPlugin no_options" initial_gl "[]"]
    plugin_attach_failure [of link_broken globe_map "StarsPlugin no_options" initial_gl "[]"]
  by (simp add: vertex_broken_def fragment_broken_def link_broken_def good_driver_def
      onAdd_def createShader_def createProgram_def link_status_def Let_def)

text \<open>
  Claim C9.  After a failed compilation or link the resource handle is to be
  \<^verbatim>\<open>null\<close> and every later \<^verbatim>\<open>render\<close> a no-op.  The layer of \<^verbatim>\<open>stars-layer.js\<close>
  only logs: after a fragment shader that does not compile, \<^verbatim>\<open>this.program\<close> is the
  program object all the same, and the next \<^verbatim>\<open>render\<close> binds, draws and leaves the
  context changed.
\<close>

theorem layer_attach_failure_still_draws:
  "\<not> fragment_compiles fragment_broken
   \<and> snd (snd (layer_onAdd fragment_broken globe_map (createStarsLayer no_options) initial_gl []))
        = [''Fragment shader compilation error:'', ''Program linking error:'']
   \<and> l_program (fst (layer_onAdd fragment_broken globe_map (createStarsLayer no_options) initial_gl []))
        = Some 3
   \<and> (\<exists>gl'. layer_render
               (fst (layer_onAdd fragment_broken globe_map (createStarsLayer no_options) initial_gl []))
               initial_gl = Inr gl'
          \<and> draw_calls gl' = draw_calls initial_gl + 1 \<and> gl' \<noteq> initial_gl)"
proof -
  let ?lay = "fst (layer_onAdd fragment_broken globe_map (createStarsLayer no_options) initial_gl [])"
  have m: "l_map ?lay = Some globe_map"
    by (simp add: layer_onAdd_def Let_def)
  have "projectionTransition (transform globe_map) \<noteq> 0"
    by (simp add: globe_map_def)
  from layer_render_after [OF m this, of initial_gl]
  obtain gl' where "layer_render ?lay initial_gl = Inr gl'" "draw_calls gl' = draw_calls initial_gl + 1"
    by auto
  moreover from this have "gl' \<noteq> initial_gl"
    by auto
  ultimately show ?thesis
    by (simp add: layer_onAdd_def Let_def fragment_broken_def good_driver_def link_status_def)
qed


section \<open>Doubles and the baked threshold\<close>

text \<open>
  Within a binade \<open>2\<^sup>-\<^sup>k \<le> |x| < 2\<^sup>1\<^sup>-\<^sup>k\<close> the doubles are the multiples of
  \<open>2\<^sup>-\<^sup>(\<^sup>k\<^sup>+\<^sup>5\<^sup>2\<^sup>)\<close>, and \<open>fl x\<close> is the nearest of them.
\<close>

lemma round_even_near: "\<bar>y - of_int n\<bar> < 1 / 2 \<Longrightarrow> round_even y = n"
proof -
  assume a: "\<bar>y - of_int n\<bar> < 1 / 2"
  show ?thesis
  proof (cases "of_int n \<le> y")
    case True
    with a have "\<lfloor>y\<rfloor> = n"
      by linarith
    with a True show ?thesis
      by (simp add: round_even_def Let_def)
  next
    case False
    with a have f: "\<lfloor>y\<rfloor> = n - 1"
      by linarith
    from a False have "1 / 2 < y - of_int (n - 1)"
      by simp
    with f show ?thesis
      by (simp add: round_even_def Let_def)
  qed
qed

lemma round_even_close: "\<bar>of_int (round_even y) - y\<bar> \<le> 1 / 2"
proof -
  have "of_int \<lfloor>y\<rfloor> \<le> y" "y < of_int \<lfloor>y\<rfloor> + 1"
    by linarith+
  then show ?thesis
    by (auto simp add: round_even_def Let_def)
qed

lemma floor_log2_binade:
  assumes "1 / 2 ^ k \<le> a" "a < 2 / 2 ^ k"
  shows "\<lfloor>log 2 a\<rfloor> = - int k"
proof -
  have pos: "0 < a"
    using assms(1) by (meson less_le_trans zero_less_divide_1_iff zero_less_numeral zero_less_power)
  have p: "2 powr (- real k) = 1 / 2 ^ k"
    by (simp add: powr_minus powr_realpow divide_simps)
  have "2 powr (- real k + 1) = 2 powr (- real k) * 2 powr 1"
    by (rule powr_add)
  then have q: "2 powr (- real k + 1) = 2 / 2 ^ k"
    by (simp add: p)
  have "- real k \<le> log 2 a"
    using pos assms(1) by (simp add: le_log_iff p)
  moreover have "log 2 a < - real k + 1"
  proof -
    have "a < 2 powr (- real k + 1)"
      using assms(2) by (simp only: q)
    then show ?thesis
      using pos by (simp add: log_less_iff)
  qed
  ultimately show ?thesis
    by (simp add: floor_eq_iff)
qed

lemma fl_binade:
  assumes "1 / 2 ^ k \<le> \<bar>x\<bar>" "\<bar>x\<bar> < 2 / 2 ^ k"
  shows "fl x = of_int (round_even (x * 2 ^ (k + 52))) / 2 ^ (k + 52)"
proof -
  have "0 < 1 / (2::real) ^ k"
    by simp
  with assms(1) have "0 < \<bar>x\<bar>"
    by linarith
  then have nz: "x \<noteq> 0"
    by simp
  have e: "\<lfloor>log 2 \<bar>x\<bar>\<rfloor> = - int k"
    by (rule floor_log2_binade [OF assms])
  have u: "2 powr (real_of_int (- int k) - 52) = 1 / (2::real) ^ (k + 52)"
  proof -
    have "real_of_int (- int k) - 52 = - real (k + 52)"
      by simp
    then have "2 powr (real_of_int (- int k) - 52) = inverse ((2::real) powr real (k + 52))"
      by (simp only: powr_minus)
    then show ?thesis
      by (simp only: powr_realpow zero_less_numeral inverse_eq_divide)
  qed
  show ?thesis
    using nz by (simp add: fl_def Let_def e u del: of_int_minus)
qed

lemma fl_eval:
  assumes "1 / 2 ^ k \<le> \<bar>x\<bar>" "\<bar>x\<bar> < 2 / 2 ^ k"
    and "\<bar>x * 2 ^ (k + 52) - of_int n\<bar> < 1 / 2"
  shows "fl x = of_int n / 2 ^ (k + 52)"
  using fl_binade [OF assms(1,2)] round_even_near [OF assms(3)] by simp

text \<open>The relative error of one rounding is at most \<open>2\<^sup>-\<^sup>5\<^sup>3\<close>.\<close>

lemma fl_rel: "\<bar>fl x - x\<bar> \<le> \<bar>x\<bar> / 2 ^ 53"
proof (cases "x = 0")
  case True
  then show ?thesis
    by (simp add: fl_def)
next
  case False
  define e where "e = \<lfloor>log 2 \<bar>x\<bar>\<rfloor>"
  define ulp :: real where "ulp = 2 powr (of_int e - 52)"
  define a :: real where "a = of_int (round_even (x / ulp))"
  have up: "0 < ulp"
    by (simp add: ulp_def)
  have f: "fl x = a * ulp"
    using False by (simp add: fl_def Let_def e_def ulp_def a_def)
  have "\<bar>a - x / ulp\<bar> \<le> 1 / 2"
    unfolding a_def by (rule round_even_close)
  then have "\<bar>a - x / ulp\<bar> * ulp \<le> 1 / 2 * ulp"
    using up by (simp add: mult_right_mono)
  moreover have "\<bar>a - x / ulp\<bar> * ulp = \<bar>fl x - x\<bar>"
  proof -
    have "(a - x / ulp) * ulp = fl x - x"
      using up by (simp add: f algebra_simps)
    then have "\<bar>fl x - x\<bar> = \<bar>(a - x / ulp) * ulp\<bar>"
      by simp
    also have "\<dots> = \<bar>a - x / ulp\<bar> * ulp"
      using up by (simp add: abs_mult)
    finally show ?thesis
      by simp
  qed
  moreover have "1 / 2 * ulp \<le> \<bar>x\<bar> / 2 ^ 53"
  proof -
    have "of_int e \<le> log 2 \<bar>x\<bar>"
      by (simp add: e_def)
    then have "2 powr (of_int e) \<le> 2 powr (log 2 \<bar>x\<bar>)"
      by simp
    also have "\<dots> = \<bar>x\<bar>"
      using False by simp
    finally have le: "2 powr (of_int e) \<le> \<bar>x\<bar>" .
    have "ulp = 2 powr (of_int e) / 2 powr 52"
      unfolding ulp_def by (rule powr_diff)
    also have "(2::real) powr 52 = 2 ^ 52"
      by simp
    finally have "1 / 2 * ulp = 2 powr (of_int e) / 2 ^ 53"
      by simp
    with le show ?thesis
      by (simp add: divide_right_mono)
  qed
  ultimately show ?thesis
    by linarith
qed


lemma round_close: "\<bar>of_int \<lfloor>c + 1 / 2\<rfloor> - c\<bar> \<le> 1 / 2" for c :: real
  by linarith

lemma toFixed2_close: "\<bar>toFixed2 a - a\<bar> \<le> 1 / 200"
proof (cases "a < 0")
  case True
  then have e: "toFixed2 a = - (of_int \<lfloor>100 * (- a) + 1 / 2\<rfloor> / 100)"
    unfolding toFixed2_def by (rule if_P)
  show ?thesis
    unfolding e using round_close [of "100 * (- a)"] by linarith
next
  case False
  then have e: "toFixed2 a = of_int \<lfloor>100 * a + 1 / 2\<rfloor> / 100"
    unfolding toFixed2_def by (rule if_not_P)
  show ?thesis
    unfolding e using round_close [of "100 * a"] by linarith
qed

lemma toFixed2_two_decimals: "\<exists>n::int. toFixed2 a = of_int n / 100"
proof (cases "a < 0")
  case True
  then have "toFixed2 a = of_int (- \<lfloor>100 * (- a) + 1 / 2\<rfloor>) / 100"
    by (simp add: toFixed2_def)
  then show ?thesis ..
next
  case False
  then have "toFixed2 a = of_int \<lfloor>100 * a + 1 / 2\<rfloor> / 100"
    by (simp add: toFixed2_def)
  then show ?thesis ..
qed




text \<open>
  The literal baked for some densities, from the doubles involved: for \<open>0.15\<close> the double
  \<open>1 - 0.15\<close> is \<open>7656119366529843 / 2\<^sup>5\<^sup>3\<close>, a little below \<open>0.85\<close>.
\<close>

lemma threshold_of_default: "threshold_of 0.15 = 0.85"
proof -
  have a: "fl 0.15 = 5404319552844595 / 2 ^ 55"
    using fl_eval [of 3 "0.15" 5404319552844595] by simp
  have b: "fl (1 - 5404319552844595 / 2 ^ 55) = 7656119366529843 / 2 ^ 53"
    using fl_eval [of 1 "1 - 5404319552844595 / 2 ^ 55" 7656119366529843] by simp
  have c: "toFixed2 (7656119366529843 / 2 ^ 53) = 0.85"
    by (simp add: toFixed2_def floor_eq_iff)
  show ?thesis
    unfolding threshold_of_def a b c by (rule refl)
qed

lemma threshold_of_0154: "threshold_of 0.154 = 0.85"
proof -
  have a: "fl 0.154 = 5548434740920451 / 2 ^ 55"
    using fl_eval [of 3 "0.154" 5548434740920451] by simp
  have b: "fl (1 - 5548434740920451 / 2 ^ 55) = 7620090569510879 / 2 ^ 53"
    using fl_eval [of 1 "1 - 5548434740920451 / 2 ^ 55" 7620090569510879] by simp
  have c: "toFixed2 (7620090569510879 / 2 ^ 53) = 0.85"
    by (simp add: toFixed2_def floor_eq_iff)
  show ?thesis
    unfolding threshold_of_def a b c by (rule refl)
qed


lemma threshold_of_0145: "threshold_of 0.145 = 0.85"
proof -
  have a: "fl 0.145 = 5224175567749775 / 2 ^ 55"
    using fl_eval [of 3 "0.145" 5224175567749775] by simp
  have b: "fl (1 - 5224175567749775 / 2 ^ 55) = 7701155362803548 / 2 ^ 53"
    using fl_eval [of 1 "1 - 5224175567749775 / 2 ^ 55" 7701155362803548] by simp
  have c: "toFixed2 (7701155362803548 / 2 ^ 53) = 0.85"
    by (simp add: toFixed2_def floor_eq_iff)
  show ?thesis
    unfolding threshold_of_def a b c by (rule refl)
qed

lemma threshold_of_0005: "threshold_of 0.005 = 0.99"
proof -
  have a: "fl 0.005 = 5764607523034235 / 2 ^ 60"
    using fl_eval [of 8 "0.005" 5764607523034235] by simp
  have b: "fl (1 - 5764607523034235 / 2 ^ 60) = 8962163258467287 / 2 ^ 53"
    using fl_eval [of 1 "1 - 5764607523034235 / 2 ^ 60" 8962163258467287] by simp
  have c: "toFixed2 (8962163258467287 / 2 ^ 53) = 0.99"
    by (simp add: toFixed2_def floor_eq_iff)
  show ?thesis
    unfolding threshold_of_def a b c by (rule refl)
qed

lemma threshold_of_1005: "threshold_of 1.005 = 0"
proof -
  have a: "fl 1.005 = 4526117625507348 / 2 ^ 52"
    using fl_eval [of 0 "1.005" 4526117625507348] by simp
  have b: "fl (1 - 4526117625507348 / 2 ^ 52) = - (5764607523034112 / 2 ^ 60)"
    using fl_eval [of 8 "1 - 4526117625507348 / 2 ^ 52" "- 5764607523034112"] by simp
  have c: "toFixed2 (- (5764607523034112 / 2 ^ 60)) = 0"
    by (simp add: toFixed2_def floor_eq_iff)
  show ?thesis
    unfolding threshold_of_def a b c by (rule refl)
qed

section \<open>A bound on the sine of 12.9898\<close>

lemma sin_sum_even: "n = Suc k \<Longrightarrow> even n \<Longrightarrow> sin_sum n = sin_sum k + sin_term n"
  by simp

lemma sin_sum_odd: "n = Suc k \<Longrightarrow> odd n \<Longrightarrow> sin_sum n = sin_sum k - sin_term n"
  by simp

lemma sin_coeff_sum: "(\<Sum>m<2 * Suc k. sin_coeff m * (64949 / 5000 :: real) ^ m) = sin_sum k"
proof (induction k)
  case 0
  show ?case
    by (simp add: sin_coeff_def lessThan_Suc sin_term_def numeral_2_eq_2)
next
  case (Suc k)
  have "(\<Sum>m<2 * Suc (Suc k). sin_coeff m * (64949 / 5000 :: real) ^ m)
      = (\<Sum>m<2 * Suc k. sin_coeff m * (64949 / 5000 :: real) ^ m)
        + sin_coeff (2 * Suc k) * (64949 / 5000) ^ (2 * Suc k)
        + sin_coeff (2 * Suc k + 1) * (64949 / 5000) ^ (2 * Suc k + 1)"
    by (simp add: lessThan_Suc)
  also have "sin_coeff (2 * Suc k) = 0"
    by (simp add: sin_coeff_def)
  also have "sin_coeff (2 * Suc k + 1) = (- 1) ^ Suc k / fact (2 * Suc k + 1)"
    by (simp add: sin_coeff_def)
  finally show ?case
    using Suc.IH by (simp add: sin_term_def)
qed

lemma sin_term_Suc:
  "n = Suc k \<Longrightarrow>
   sin_term n = sin_term k * (4218372601 / 25000000) / (real (2 * k + 2) * real (2 * k + 3))"
proof -
  assume n: "n = Suc k"
  have "(64949 / 5000 :: real) ^ (2 * Suc k + 1) = (64949 / 5000) ^ (2 * k + 1) * (4218372601 / 25000000)"
    by (simp add: power2_eq_square [symmetric] power_divide)
  moreover have "fact (2 * Suc k + 1) = (fact (2 * k + 1) :: real) * (real (2 * k + 2) * real (2 * k + 3))"
    by (simp add: algebra_simps)
  ultimately show ?thesis
    by (simp add: sin_term_def n)
qed

lemma sin_term_b0: "129898000000000000 / 10 ^ 16 \<le> sin_term 0 \<and> sin_term 0 \<le> 129898000000000000 / 10 ^ 16"
  by (simp add: sin_term_def)

lemma sin_term_b1: "3653054427497986666 / 10 ^ 16 \<le> sin_term 1 \<and> sin_term 1 \<le> 3653054427497986667 / 10 ^ 16"
proof -
  have "sin_term 1 = sin_term 0 * (4218372601 / 25000000) / (real (2 * 0 + 2) * real (2 * 0 + 3))"
    by (rule sin_term_Suc) simp
  then show ?thesis
    using sin_term_b0 by simp
qed

lemma sin_term_b2: "30819889413838495869 / 10 ^ 16 \<le> sin_term 2 \<and> sin_term 2 \<le> 30819889413838495878 / 10 ^ 16"
proof -
  have "sin_term 2 = sin_term 1 * (4218372601 / 25000000) / (real (2 * 1 + 2) * real (2 * 1 + 3))"
    by (rule sin_term_Suc) simp
  then show ?thesis
    using sin_term_b1 by simp
qed

lemma sin_term_b3: "123818835303986915440 / 10 ^ 16 \<le> sin_term 3 \<and> sin_term 3 \<le> 123818835303986915477 / 10 ^ 16"
proof -
  have "sin_term 3 = sin_term 2 * (4218372601 / 25000000) / (real (2 * 2 + 2) * real (2 * 2 + 3))"
    by (rule sin_term_Suc) simp
  then show ?thesis
    using sin_term_b2 by simp
qed

lemma sin_term_b4: "290174434630038838974 / 10 ^ 16 \<le> sin_term 4 \<and> sin_term 4 \<le> 290174434630038839062 / 10 ^ 16"
proof -
  have "sin_term 4 = sin_term 3 * (4218372601 / 25000000) / (real (2 * 3 + 2) * real (2 * 3 + 3))"
    by (rule sin_term_Suc) simp
  then show ?thesis
    using sin_term_b3 by simp
qed

lemma sin_term_b5: "445114139837825967234 / 10 ^ 16 \<le> sin_term 5 \<and> sin_term 5 \<le> 445114139837825967370 / 10 ^ 16"
proof -
  have "sin_term 5 = sin_term 4 * (4218372601 / 25000000) / (real (2 * 4 + 2) * real (2 * 4 + 3))"
    by (rule sin_term_Suc) simp
  then show ?thesis
    using sin_term_b4 by simp
qed

lemma sin_term_b6: "481450587643478882970 / 10 ^ 16 \<le> sin_term 6 \<and> sin_term 6 \<le> 481450587643478883118 / 10 ^ 16"
proof -
  have "sin_term 6 = sin_term 5 * (4218372601 / 25000000) / (real (2 * 5 + 2) * real (2 * 5 + 3))"
    by (rule sin_term_Suc) simp
  then show ?thesis
    using sin_term_b5 by simp
qed

lemma sin_term_b7: "386845327171542947855 / 10 ^ 16 \<le> sin_term 7 \<and> sin_term 7 \<le> 386845327171542947975 / 10 ^ 16"
proof -
  have "sin_term 7 = sin_term 6 * (4218372601 / 25000000) / (real (2 * 6 + 2) * real (2 * 6 + 3))"
    by (rule sin_term_Suc) simp
  then show ?thesis
    using sin_term_b6 by simp
qed

lemma sin_term_b8: "239979077789017293842 / 10 ^ 16 \<le> sin_term 8 \<and> sin_term 8 \<le> 239979077789017293917 / 10 ^ 16"
proof -
  have "sin_term 8 = sin_term 7 * (4218372601 / 25000000) / (real (2 * 7 + 2) * real (2 * 7 + 3))"
    by (rule sin_term_Suc) simp
  then show ?thesis
    using sin_term_b7 by simp
qed

lemma sin_term_b9: "118400136439583416498 / 10 ^ 16 \<le> sin_term 9 \<and> sin_term 9 \<le> 118400136439583416536 / 10 ^ 16"
proof -
  have "sin_term 9 = sin_term 8 * (4218372601 / 25000000) / (real (2 * 8 + 2) * real (2 * 8 + 3))"
    by (rule sin_term_Suc) simp
  then show ?thesis
    using sin_term_b8 by simp
qed

lemma sin_term_b10: "47567227762990512000 / 10 ^ 16 \<le> sin_term 10 \<and> sin_term 10 \<le> 47567227762990512017 / 10 ^ 16"
proof -
  have "sin_term 10 = sin_term 9 * (4218372601 / 25000000) / (real (2 * 9 + 2) * real (2 * 9 + 3))"
    by (rule sin_term_Suc) simp
  then show ?thesis
    using sin_term_b9 by simp
qed

lemma sin_term_b11: "15862157336041557125 / 10 ^ 16 \<le> sin_term 11 \<and> sin_term 11 \<le> 15862157336041557132 / 10 ^ 16"
proof -
  have "sin_term 11 = sin_term 10 * (4218372601 / 25000000) / (real (2 * 10 + 2) * real (2 * 10 + 3))"
    by (rule sin_term_Suc) simp
  then show ?thesis
    using sin_term_b10 by simp
qed

lemma sin_term_b12: "4460832659940590291 / 10 ^ 16 \<le> sin_term 12 \<and> sin_term 12 \<le> 4460832659940590294 / 10 ^ 16"
proof -
  have "sin_term 12 = sin_term 11 * (4218372601 / 25000000) / (real (2 * 11 + 2) * real (2 * 11 + 3))"
    by (rule sin_term_Suc) simp
  then show ?thesis
    using sin_term_b11 by simp
qed

lemma sin_term_b13: "1072219616543551929 / 10 ^ 16 \<le> sin_term 13 \<and> sin_term 13 \<le> 1072219616543551931 / 10 ^ 16"
proof -
  have "sin_term 13 = sin_term 12 * (4218372601 / 25000000) / (real (2 * 12 + 2) * real (2 * 12 + 3))"
    by (rule sin_term_Suc) simp
  then show ?thesis
    using sin_term_b12 by simp
qed

lemma sin_term_b14: "222808958260199299 / 10 ^ 16 \<le> sin_term 14 \<and> sin_term 14 \<le> 222808958260199300 / 10 ^ 16"
proof -
  have "sin_term 14 = sin_term 13 * (4218372601 / 25000000) / (real (2 * 13 + 2) * real (2 * 13 + 3))"
    by (rule sin_term_Suc) simp
  then show ?thesis
    using sin_term_b13 by simp
qed

lemma sin_term_b15: "40425428162674294 / 10 ^ 16 \<le> sin_term 15 \<and> sin_term 15 \<le> 40425428162674295 / 10 ^ 16"
proof -
  have "sin_term 15 = sin_term 14 * (4218372601 / 25000000) / (real (2 * 14 + 2) * real (2 * 14 + 3))"
    by (rule sin_term_Suc) simp
  then show ?thesis
    using sin_term_b14 by simp
qed

lemma sin_term_b16: "6459451460042386 / 10 ^ 16 \<le> sin_term 16 \<and> sin_term 16 \<le> 6459451460042388 / 10 ^ 16"
proof -
  have "sin_term 16 = sin_term 15 * (4218372601 / 25000000) / (real (2 * 15 + 2) * real (2 * 15 + 3))"
    by (rule sin_term_Suc) simp
  then show ?thesis
    using sin_term_b15 by simp
qed

lemma sin_term_b17: "915911699379235 / 10 ^ 16 \<le> sin_term 17 \<and> sin_term 17 \<le> 915911699379236 / 10 ^ 16"
proof -
  have "sin_term 17 = sin_term 16 * (4218372601 / 25000000) / (real (2 * 16 + 2) * real (2 * 16 + 3))"
    by (rule sin_term_Suc) simp
  then show ?thesis
    using sin_term_b16 by simp
qed

lemma sin_term_b18: "116025730258159 / 10 ^ 16 \<le> sin_term 18 \<and> sin_term 18 \<le> 116025730258160 / 10 ^ 16"
proof -
  have "sin_term 18 = sin_term 17 * (4218372601 / 25000000) / (real (2 * 17 + 2) * real (2 * 17 + 3))"
    by (rule sin_term_Suc) simp
  then show ?thesis
    using sin_term_b17 by simp
qed

lemma sin_term_b19: "13210249973874 / 10 ^ 16 \<le> sin_term 19 \<and> sin_term 19 \<le> 13210249973875 / 10 ^ 16"
proof -
  have "sin_term 19 = sin_term 18 * (4218372601 / 25000000) / (real (2 * 18 + 2) * real (2 * 18 + 3))"
    by (rule sin_term_Suc) simp
  then show ?thesis
    using sin_term_b18 by simp
qed

lemma sin_term_b20: "1359164793711 / 10 ^ 16 \<le> sin_term 20 \<and> sin_term 20 \<le> 1359164793712 / 10 ^ 16"
proof -
  have "sin_term 20 = sin_term 19 * (4218372601 / 25000000) / (real (2 * 19 + 2) * real (2 * 19 + 3))"
    by (rule sin_term_Suc) simp
  then show ?thesis
    using sin_term_b19 by simp
qed

lemma sin_term_b21: "126987010543 / 10 ^ 16 \<le> sin_term 21 \<and> sin_term 21 \<le> 126987010544 / 10 ^ 16"
proof -
  have "sin_term 21 = sin_term 20 * (4218372601 / 25000000) / (real (2 * 20 + 2) * real (2 * 20 + 3))"
    by (rule sin_term_Suc) simp
  then show ?thesis
    using sin_term_b20 by simp
qed

lemma sin_term_b22: "10821788403 / 10 ^ 16 \<le> sin_term 22 \<and> sin_term 22 \<le> 10821788404 / 10 ^ 16"
proof -
  have "sin_term 22 = sin_term 21 * (4218372601 / 25000000) / (real (2 * 21 + 2) * real (2 * 21 + 3))"
    by (rule sin_term_Suc) simp
  then show ?thesis
    using sin_term_b21 by simp
qed

lemma sin_term_b23: "844594554 / 10 ^ 16 \<le> sin_term 23 \<and> sin_term 23 \<le> 844594555 / 10 ^ 16"
proof -
  have "sin_term 23 = sin_term 22 * (4218372601 / 25000000) / (real (2 * 22 + 2) * real (2 * 22 + 3))"
    by (rule sin_term_Suc) simp
  then show ?thesis
    using sin_term_b22 by simp
qed

lemma sin_term_b24: "60592083 / 10 ^ 16 \<le> sin_term 24 \<and> sin_term 24 \<le> 60592084 / 10 ^ 16"
proof -
  have "sin_term 24 = sin_term 23 * (4218372601 / 25000000) / (real (2 * 23 + 2) * real (2 * 23 + 3))"
    by (rule sin_term_Suc) simp
  then show ?thesis
    using sin_term_b23 by simp
qed

lemma sin_sum_b0: "129898000000000000 / 10 ^ 16 \<le> sin_sum 0 \<and> sin_sum 0 \<le> 129898000000000000 / 10 ^ 16"
  using sin_term_b0 by simp

lemma sin_sum_b1: "- 3523156427497986667 / 10 ^ 16 \<le> sin_sum 1 \<and> sin_sum 1 \<le> - 3523156427497986666 / 10 ^ 16"
proof -
  have "sin_sum 1 = sin_sum 0 - sin_term 1"
    by (rule sin_sum_odd) simp_all
  then show ?thesis
    using sin_sum_b0 sin_term_b1 by simp
qed

lemma sin_sum_b2: "27296732986340509202 / 10 ^ 16 \<le> sin_sum 2 \<and> sin_sum 2 \<le> 27296732986340509212 / 10 ^ 16"
proof -
  have "sin_sum 2 = sin_sum 1 + sin_term 2"
    by (rule sin_sum_even) simp_all
  then show ?thesis
    using sin_sum_b1 sin_term_b2 by simp
qed

lemma sin_sum_b3: "- 96522102317646406275 / 10 ^ 16 \<le> sin_sum 3 \<and> sin_sum 3 \<le> - 96522102317646406228 / 10 ^ 16"
proof -
  have "sin_sum 3 = sin_sum 2 - sin_term 3"
    by (rule sin_sum_odd) simp_all
  then show ?thesis
    using sin_sum_b2 sin_term_b3 by simp
qed

lemma sin_sum_b4: "193652332312392432699 / 10 ^ 16 \<le> sin_sum 4 \<and> sin_sum 4 \<le> 193652332312392432834 / 10 ^ 16"
proof -
  have "sin_sum 4 = sin_sum 3 + sin_term 4"
    by (rule sin_sum_even) simp_all
  then show ?thesis
    using sin_sum_b3 sin_term_b4 by simp
qed

lemma sin_sum_b5: "- 251461807525433534671 / 10 ^ 16 \<le> sin_sum 5 \<and> sin_sum 5 \<le> - 251461807525433534400 / 10 ^ 16"
proof -
  have "sin_sum 5 = sin_sum 4 - sin_term 5"
    by (rule sin_sum_odd) simp_all
  then show ?thesis
    using sin_sum_b4 sin_term_b5 by simp
qed

lemma sin_sum_b6: "229988780118045348299 / 10 ^ 16 \<le> sin_sum 6 \<and> sin_sum 6 \<le> 229988780118045348718 / 10 ^ 16"
proof -
  have "sin_sum 6 = sin_sum 5 + sin_term 6"
    by (rule sin_sum_even) simp_all
  then show ?thesis
    using sin_sum_b5 sin_term_b6 by simp
qed

lemma sin_sum_b7: "- 156856547053497599676 / 10 ^ 16 \<le> sin_sum 7 \<and> sin_sum 7 \<le> - 156856547053497599137 / 10 ^ 16"
proof -
  have "sin_sum 7 = sin_sum 6 - sin_term 7"
    by (rule sin_sum_odd) simp_all
  then show ?thesis
    using sin_sum_b6 sin_term_b7 by simp
qed

lemma sin_sum_b8: "83122530735519694166 / 10 ^ 16 \<le> sin_sum 8 \<and> sin_sum 8 \<le> 83122530735519694780 / 10 ^ 16"
proof -
  have "sin_sum 8 = sin_sum 7 + sin_term 8"
    by (rule sin_sum_even) simp_all
  then show ?thesis
    using sin_sum_b7 sin_term_b8 by simp
qed

lemma sin_sum_b9: "- 35277605704063722370 / 10 ^ 16 \<le> sin_sum 9 \<and> sin_sum 9 \<le> - 35277605704063721718 / 10 ^ 16"
proof -
  have "sin_sum 9 = sin_sum 8 - sin_term 9"
    by (rule sin_sum_odd) simp_all
  then show ?thesis
    using sin_sum_b8 sin_term_b9 by simp
qed

lemma sin_sum_b10: "12289622058926789630 / 10 ^ 16 \<le> sin_sum 10 \<and> sin_sum 10 \<le> 12289622058926790299 / 10 ^ 16"
proof -
  have "sin_sum 10 = sin_sum 9 + sin_term 10"
    by (rule sin_sum_even) simp_all
  then show ?thesis
    using sin_sum_b9 sin_term_b10 by simp
qed

lemma sin_sum_b11: "- 3572535277114767502 / 10 ^ 16 \<le> sin_sum 11 \<and> sin_sum 11 \<le> - 3572535277114766826 / 10 ^ 16"
proof -
  have "sin_sum 11 = sin_sum 10 - sin_term 11"
    by (rule sin_sum_odd) simp_all
  then show ?thesis
    using sin_sum_b10 sin_term_b11 by simp
qed

lemma sin_sum_b12: "888297382825822789 / 10 ^ 16 \<le> sin_sum 12 \<and> sin_sum 12 \<le> 888297382825823468 / 10 ^ 16"
proof -
  have "sin_sum 12 = sin_sum 11 + sin_term 12"
    by (rule sin_sum_even) simp_all
  then show ?thesis
    using sin_sum_b11 sin_term_b12 by simp
qed

lemma sin_sum_b13: "- 183922233717729142 / 10 ^ 16 \<le> sin_sum 13 \<and> sin_sum 13 \<le> - 183922233717728461 / 10 ^ 16"
proof -
  have "sin_sum 13 = sin_sum 12 - sin_term 13"
    by (rule sin_sum_odd) simp_all
  then show ?thesis
    using sin_sum_b12 sin_term_b13 by simp
qed

lemma sin_sum_b14: "38886724542470157 / 10 ^ 16 \<le> sin_sum 14 \<and> sin_sum 14 \<le> 38886724542470839 / 10 ^ 16"
proof -
  have "sin_sum 14 = sin_sum 13 + sin_term 14"
    by (rule sin_sum_even) simp_all
  then show ?thesis
    using sin_sum_b13 sin_term_b14 by simp
qed

lemma sin_sum_b15: "- 1538703620204138 / 10 ^ 16 \<le> sin_sum 15 \<and> sin_sum 15 \<le> - 1538703620203455 / 10 ^ 16"
proof -
  have "sin_sum 15 = sin_sum 14 - sin_term 15"
    by (rule sin_sum_odd) simp_all
  then show ?thesis
    using sin_sum_b14 sin_term_b15 by simp
qed

lemma sin_sum_b16: "4920747839838248 / 10 ^ 16 \<le> sin_sum 16 \<and> sin_sum 16 \<le> 4920747839838933 / 10 ^ 16"
proof -
  have "sin_sum 16 = sin_sum 15 + sin_term 16"
    by (rule sin_sum_even) simp_all
  then show ?thesis
    using sin_sum_b15 sin_term_b16 by simp
qed

lemma sin_sum_b17: "4004836140459012 / 10 ^ 16 \<le> sin_sum 17 \<and> sin_sum 17 \<le> 4004836140459698 / 10 ^ 16"
proof -
  have "sin_sum 17 = sin_sum 16 - sin_term 17"
    by (rule sin_sum_odd) simp_all
  then show ?thesis
    using sin_sum_b16 sin_term_b17 by simp
qed

lemma sin_sum_b18: "4120861870717171 / 10 ^ 16 \<le> sin_sum 18 \<and> sin_sum 18 \<le> 4120861870717858 / 10 ^ 16"
proof -
  have "sin_sum 18 = sin_sum 17 + sin_term 18"
    by (rule sin_sum_even) simp_all
  then show ?thesis
    using sin_sum_b17 sin_term_b18 by simp
qed

lemma sin_sum_b19: "4107651620743296 / 10 ^ 16 \<le> sin_sum 19 \<and> sin_sum 19 \<le> 4107651620743984 / 10 ^ 16"
proof -
  have "sin_sum 19 = sin_sum 18 - sin_term 19"
    by (rule sin_sum_odd) simp_all
  then show ?thesis
    using sin_sum_b18 sin_term_b19 by simp
qed

lemma sin_sum_b20: "4109010785537007 / 10 ^ 16 \<le> sin_sum 20 \<and> sin_sum 20 \<le> 4109010785537696 / 10 ^ 16"
proof -
  have "sin_sum 20 = sin_sum 19 + sin_term 20"
    by (rule sin_sum_even) simp_all
  then show ?thesis
    using sin_sum_b19 sin_term_b20 by simp
qed

lemma sin_sum_b21: "4108883798526463 / 10 ^ 16 \<le> sin_sum 21 \<and> sin_sum 21 \<le> 4108883798527153 / 10 ^ 16"
proof -
  have "sin_sum 21 = sin_sum 20 - sin_term 21"
    by (rule sin_sum_odd) simp_all
  then show ?thesis
    using sin_sum_b20 sin_term_b21 by simp
qed

lemma sin_sum_b22: "4108894620314866 / 10 ^ 16 \<le> sin_sum 22 \<and> sin_sum 22 \<le> 4108894620315557 / 10 ^ 16"
proof -
  have "sin_sum 22 = sin_sum 21 + sin_term 22"
    by (rule sin_sum_even) simp_all
  then show ?thesis
    using sin_sum_b21 sin_term_b22 by simp
qed

lemma sin_sum_b23: "4108893775720311 / 10 ^ 16 \<le> sin_sum 23 \<and> sin_sum 23 \<le> 4108893775721003 / 10 ^ 16"
proof -
  have "sin_sum 23 = sin_sum 22 - sin_term 23"
    by (rule sin_sum_odd) simp_all
  then show ?thesis
    using sin_sum_b22 sin_term_b23 by simp
qed

lemma sin_sum_b24: "4108893836312394 / 10 ^ 16 \<le> sin_sum 24 \<and> sin_sum 24 \<le> 4108893836313087 / 10 ^ 16"
proof -
  have "sin_sum 24 = sin_sum 23 + sin_term 24"
    by (rule sin_sum_even) simp_all
  then show ?thesis
    using sin_sum_b23 sin_term_b24 by simp
qed

lemma sin_remainder:
  "inverse (fact 50) * \<bar>64949 / 5000 :: real\<bar> ^ 50 = sin_term 24 * (64949 / 5000) / 50"
proof -
  have "fact 50 = (fact 49 :: real) * 50"
    using fact_Suc [of 49] by (simp add: mult.commute)
  moreover have "(64949 / 5000 :: real) ^ 50 = (64949 / 5000) ^ 49 * (64949 / 5000)"
    using power_Suc2 [of "64949 / 5000 :: real" 49] by simp
  ultimately show ?thesis
    by (simp add: sin_term_def divide_simps)
qed

lemma sin_12_9898:
  "4108893820 / 10000000000 \<le> sin (64949 / 5000 :: real)"
  "sin (64949 / 5000 :: real) \<le> 4108893853 / 10000000000"
proof -
  have "\<bar>sin (64949 / 5000 :: real) - (\<Sum>m<50. sin_coeff m * (64949 / 5000) ^ m)\<bar>
      \<le> inverse (fact 50) * \<bar>64949 / 5000\<bar> ^ 50"
    by (rule Maclaurin_sin_bound)
  moreover have "(\<Sum>m<50. sin_coeff m * (64949 / 5000 :: real) ^ m) = sin_sum 24"
    using sin_coeff_sum [of 24] by simp
  ultimately have "\<bar>sin (64949 / 5000 :: real) - sin_sum 24\<bar> \<le> sin_term 24 * (64949 / 5000) / 50"
    by (simp only: sin_remainder)
  then have "sin_sum 24 - sin_term 24 * (64949 / 5000) / 50 \<le> sin (64949 / 5000 :: real)"
    and "sin (64949 / 5000 :: real) \<le> sin_sum 24 + sin_term 24 * (64949 / 5000) / 50"
    by linarith+
  moreover have "sin_term 24 * (64949 / 5000) / 50 \<le> 16 / 10000000000"
    using sin_term_b24 by simp
  moreover have "4108893836 / 10000000000 \<le> sin_sum 24" and "sin_sum 24 \<le> 4108893837 / 10000000000"
    using sin_sum_b24 by simp_all
  ultimately show "4108893820 / 10000000000 \<le> sin (64949 / 5000 :: real)"
    and "sin (64949 / 5000 :: real) \<le> 4108893853 / 10000000000"
    by linarith+
qed

section \<open>The star field: properties\<close>

lemma fract_range: "0 \<le> fract a" "fract a < 1"
  by (simp_all add: fract_def) linarith+

text \<open>The presence hash of the cell \<open>(1, 0)\<close> lies between 0.9216 and 0.9218.\<close>

lemma presenceHash_1_0: "0.9216 < presenceHash (1, 0)" "presenceHash (1, 0) < 0.9218"
proof -
  let ?v = "sin (64949 / 5000 :: real) * 43758.5453"
  have lo: "17979.9216 < ?v" and hi: "?v < 17979.9218"
    using sin_12_9898 by simp_all
  then have "\<lfloor>?v\<rfloor> = 17979"
    by (simp add: floor_eq_iff)
  then have "fract ?v = ?v - 17979"
    by (simp add: fract_def)
  then show "0.9216 < presenceHash (1, 0)" "presenceHash (1, 0) < 0.9218"
    using lo hi by (simp_all add: presenceHash_def cell_hash_def dot2_def)
qed


lemma cell_hash_range: "0 \<le> cell_hash gp k" "cell_hash gp k < 1"
  by (simp_all add: cell_hash_def fract_range)

lemma starField_eq:
  "starField var thr i uv lat =
     (if starPresent thr (gridPos_of uv) then strength_of var uv lat else 0) * i"
  by (simp add: starField_def Let_def starPresent_def presenceHash_def gridPos_of_def
      starSize_of_def sizeHash_of_def dist_of_def brightness_of_def offsetHash_def strength_of_def)

text \<open>
  The block that returns its hashes computes what the names above say, and its
  \<open>t_stars\<close> is the value of \<^const>\<open>starField\<close>.
\<close>

lemma starField_trace_eq:
  "starField_trace var thr i uv lat =
     (if starPresent thr (gridPos_of uv) then
        \<lparr>t_gridPos = gridPos_of uv, t_hash = presenceHash (gridPos_of uv),
         t_hashX = Some (x2 (offsetHash (gridPos_of uv))),
         t_hashY = Some (y2 (offsetHash (gridPos_of uv))),
         t_sizeHash = Some (sizeHash_of (gridPos_of uv)),
         t_brightness = Some (brightness_of (gridPos_of uv)),
         t_stars = strength_of var uv lat * i\<rparr>
      else
        \<lparr>t_gridPos = gridPos_of uv, t_hash = presenceHash (gridPos_of uv),
         t_hashX = None, t_hashY = None, t_sizeHash = None, t_brightness = None,
         t_stars = 0\<rparr>)"
  by (simp add: starField_trace_def Let_def starPresent_def presenceHash_def gridPos_of_def
      starSize_of_def sizeHash_of_def dist_of_def brightness_of_def offsetHash_def strength_of_def)

lemma starField_trace_stars: "t_stars (starField_trace var thr i uv lat) = starField var thr i uv lat"
  by (simp add: starField_trace_eq starField_eq)

lemma fragment_main_trace:
  "fragment_main var thr u v =
     (let lnglat = coord_transform (u_camera_angles u) (u_globe_center u) (normalize3 v);
          s = t_stars (starField_trace var thr (u_stars_intensity u) (uv_of lnglat) (y2 lnglat))
      in (s, s, s, 1))"
  by (simp add: fragment_main_def starField_trace_stars Let_def)

lemma clamp_range: "0 \<le> clamp a 0 1" "clamp a 0 1 \<le> 1"
  by (simp_all add: clamp_def)

lemma smoothstep_range: "0 \<le> smoothstep e0 e1 a" "smoothstep e0 e1 a \<le> 1"
proof -
  define t where "t = clamp ((a - e0) / (e1 - e0)) 0 1"
  have t: "0 \<le> t" "t \<le> 1"
    by (simp_all add: t_def clamp_range)
  have s: "smoothstep e0 e1 a = t * t * (3 - 2 * t)"
    by (simp add: smoothstep_def t_def Let_def)
  from t have "0 \<le> t * t * (3 - 2 * t)"
    by simp
  then show "0 \<le> smoothstep e0 e1 a"
    by (simp add: s)
  have "1 - t * t * (3 - 2 * t) = (1 - t) * (1 - t) * (1 + 2 * t)"
    by (simp add: algebra_simps)
  moreover from t have "0 \<le> (1 - t) * (1 - t) * (1 + 2 * t)"
    by simp
  ultimately show "smoothstep e0 e1 a \<le> 1"
    by (simp add: s)
qed

lemma smoothstep_saturated: "0 < e \<Longrightarrow> e \<le> a \<Longrightarrow> smoothstep 0 e a = 1"
proof -
  assume "0 < e" "e \<le> a"
  then have "1 \<le> a / e"
    by (simp add: le_divide_eq)
  then have "clamp (a / e) 0 1 = 1"
    by (simp add: clamp_def)
  then show ?thesis
    by (simp add: smoothstep_def Let_def)
qed

lemma smoothstep_at_0: "smoothstep 0 e 0 = 0"
  by (simp add: smoothstep_def clamp_def Let_def)

lemma sizeHash_range: "0 \<le> sizeHash_of gp" "sizeHash_of gp < 1"
  by (simp_all add: sizeHash_of_def cell_hash_range)

lemma starSize_range: "0 < starSize_of var gp" "starSize_of var gp < 0.06"
  using sizeHash_range [of gp] by (cases var; simp add: starSize_of_def add_pos_nonneg)+

lemma brightness_range: "0.5 \<le> brightness_of gp" "brightness_of gp < 1"
  using sizeHash_range [of gp] by (simp_all add: brightness_of_def)

lemma strength_nonneg: "0 \<le> strength_of var uv lat"
  using brightness_range(1) [of "gridPos_of uv"] by (simp add: strength_of_def pow_def)

lemma strength_saturated:
  "starSize_of var (gridPos_of uv) \<le> dist_of uv lat \<Longrightarrow> strength_of var uv lat = 0"
  by (simp add: strength_of_def pow_def smoothstep_saturated starSize_range)

lemma strength_at_centre:
  "dist_of uv lat = 0 \<Longrightarrow> strength_of var uv lat = 0.5 + 0.5 * sizeHash_of (gridPos_of uv)"
  by (simp add: strength_of_def pow_def smoothstep_at_0 brightness_of_def)

text \<open>
  Claim C4.  In a cell with a star the value of \<^verbatim>\<open>stars\<close> is the strength times
  \<^verbatim>\<open>u_stars_intensity\<close>.  The strength is never negative, and neither is the product for
  an intensity that is not negative (the configuration asks for a positive one).  From
  \<open>dist = starSize\<close> on the value is \<open>0\<close>, and at \<open>dist = 0\<close> it is
  \<open>(0.5 + 0.5 * sizeHash) * intensity\<close>.  Both shader variants.
\<close>

theorem star_strength_bounds:
  assumes "starPresent thr (gridPos_of uv)"
  shows "starField var thr i uv lat = strength_of var uv lat * i
       \<and> 0 \<le> strength_of var uv lat
       \<and> (0 \<le> i \<longrightarrow> 0 \<le> starField var thr i uv lat)
       \<and> (starSize_of var (gridPos_of uv) \<le> dist_of uv lat \<longrightarrow> starField var thr i uv lat = 0)
       \<and> (dist_of uv lat = 0 \<longrightarrow>
            starField var thr i uv lat = (0.5 + 0.5 * sizeHash_of (gridPos_of uv)) * i)"
  using assms strength_nonneg [of var uv lat]
  by (simp add: starField_eq strength_saturated strength_at_centre)

lemma floor_hash: "0 \<le> h \<Longrightarrow> h < 1 \<Longrightarrow> \<lfloor>h\<rfloor> = 0" for h :: real
  by (simp add: floor_eq_iff)

lemma fract_plus_hash: "0 \<le> h \<Longrightarrow> h < 1 \<Longrightarrow> fract (of_int n + h) = h"
  by (simp add: fract_def floor_hash)

lemma scaled_pixel_uv:
  "x2 (pixel_uv i j fx fy) * 200 = of_int i + fx" "y2 (pixel_uv i j fx fy) * 200 = of_int j + fy"
  by (simp_all add: pixel_uv_def)

lemma gridPos_pixel_uv:
  assumes "0 \<le> fx" "fx < 1" "0 \<le> fy" "fy < 1"
  shows "gridPos_of (pixel_uv i j fx fy) = (of_int i, of_int j)"
  unfolding gridPos_of_def scaled_pixel_uv floor2_def
  using assms by (simp add: floor_hash)

lemma dist_pixel_uv:
  assumes "0 \<le> fx" "fx < 1" "0 \<le> fy" "fy < 1"
  shows "dist_of (pixel_uv i j fx fy) lat =
     length2 ((fx - x2 (offsetHash (of_int i, of_int j))) / 200 / max 0.3 (cos lat),
              (fy - y2 (offsetHash (of_int i, of_int j))) / 200 * 2) * 200"
  unfolding dist_of_def scaled_pixel_uv floor2_def fract2_def Let_def
  using assms by (simp add: floor_hash fract_plus_hash)

lemma offsetHash_range:
  "0 \<le> x2 (offsetHash gp)" "x2 (offsetHash gp) < 1" "0 \<le> y2 (offsetHash gp)" "y2 (offsetHash gp) < 1"
  by (simp_all add: offsetHash_def cell_hash_range)

lemma gridPos_star_centre: "gridPos_of star_centre_uv = (1, 0)"
proof -
  have "gridPos_of (pixel_uv 1 0 (x2 (offsetHash (1, 0))) (y2 (offsetHash (1, 0))))
      = (of_int 1, of_int 0)"
    by (rule gridPos_pixel_uv) (simp_all add: offsetHash_range)
  then show ?thesis
    by (simp add: star_centre_uv_def)
qed

lemma gridPos_star_far: "gridPos_of star_far_uv = (1, 0)"
proof -
  have "gridPos_of (pixel_uv 1 0 (x2 (offsetHash (1, 0))) (fract (y2 (offsetHash (1, 0)) + 1 / 2)))
      = (of_int 1, of_int 0)"
    by (rule gridPos_pixel_uv) (simp_all add: offsetHash_range fract_range)
  then show ?thesis
    by (simp add: star_far_uv_def)
qed

lemma dist_star_centre: "dist_of star_centre_uv lat = 0"
proof -
  have "dist_of (pixel_uv 1 0 (x2 (offsetHash (1, 0))) (y2 (offsetHash (1, 0)))) lat =
     length2 ((x2 (offsetHash (1, 0)) - x2 (offsetHash (of_int 1, of_int 0))) / 200 / max 0.3 (cos lat),
              (y2 (offsetHash (1, 0)) - y2 (offsetHash (of_int 1, of_int 0))) / 200 * 2) * 200"
    by (rule dist_pixel_uv) (simp_all add: offsetHash_range)
  then show ?thesis
    by (simp add: star_centre_uv_def length2_def)
qed

lemma fract_half_shift:
  assumes "0 \<le> h" "h < 1"
  shows "(fract (h + 1 / 2) - h) * (fract (h + 1 / 2) - h) = 1 / 4"
proof (cases "h < 1 / 2")
  case True
  with assms have "\<lfloor>h + 1 / 2\<rfloor> = 0"
    by (simp add: floor_eq_iff)
  then show ?thesis
    by (simp add: fract_def)
next
  case False
  with assms have "\<lfloor>h + 1 / 2\<rfloor> = 1"
    by (simp add: floor_eq_iff)
  then have "fract (h + 1 / 2) - h = - (1 / 2)"
    by (simp add: fract_def)
  then show ?thesis
    by simp
qed

lemma sq_scaled: "(d / 200 * 2) * (d / 200 * 2) = (d * d) / 10000" for d :: real
  by simp

lemma dist_star_far: "dist_of star_far_uv 0 = 1"
proof -
  let ?hy = "y2 (offsetHash (1, 0))"
  let ?d = "fract (?hy + 1 / 2) - ?hy"
  have "dist_of (pixel_uv 1 0 (x2 (offsetHash (1, 0))) (fract (?hy + 1 / 2))) 0 =
     length2 ((x2 (offsetHash (1, 0)) - x2 (offsetHash (of_int 1, of_int 0))) / 200 / max 0.3 (cos 0),
              (fract (?hy + 1 / 2) - y2 (offsetHash (of_int 1, of_int 0))) / 200 * 2) * 200"
    by (rule dist_pixel_uv) (simp_all add: offsetHash_range fract_range)
  then have "dist_of star_far_uv 0 = length2 (0, ?d / 200 * 2) * 200"
    by (simp add: star_far_uv_def)
  also have "length2 (0, ?d / 200 * 2) = sqrt ((?d / 200 * 2) * (?d / 200 * 2))"
    by (simp add: length2_def)
  also have "(?d / 200 * 2) * (?d / 200 * 2) = (?d * ?d) / 10000"
    by (rule sq_scaled)
  also have "?d * ?d = 1 / 4"
    by (rule fract_half_shift) (simp_all add: offsetHash_range)
  also have "sqrt (1 / 4 / 10000) = 1 / 200"
    by (rule real_sqrt_unique) (simp_all add: power2_eq_square)
  finally show ?thesis
    by simp
qed

theorem star_strength_bounds_witness:
  "starPresent (threshold_of 0.15) (gridPos_of star_centre_uv)
   \<and> starPresent (threshold_of 0.15) (gridPos_of star_far_uv)
   \<and> dist_of star_centre_uv 0 = 0
   \<and> starField Plugin (threshold_of 0.15) 20 star_centre_uv 0
       = (0.5 + 0.5 * sizeHash_of (gridPos_of star_centre_uv)) * 20
   \<and> 0 \<le> starField Plugin (threshold_of 0.15) 20 star_centre_uv 0
   \<and> starSize_of Plugin (gridPos_of star_far_uv) \<le> dist_of star_far_uv 0
   \<and> starField Plugin (threshold_of 0.15) 20 star_far_uv 0 = 0"
proof -
  have p: "starPresent (threshold_of 0.15) (1, 0)"
    unfolding starPresent_def threshold_of_default using presenceHash_1_0 by simp
  have far: "starSize_of Plugin (1, 0) \<le> 1"
    using starSize_range(2) [of Plugin "(1, 0)"] by simp
  show ?thesis
    using star_strength_bounds [of "threshold_of 0.15" star_centre_uv Plugin 20 0]
      star_strength_bounds [of "threshold_of 0.15" star_far_uv Plugin 20 0] p far
    by (simp add: gridPos_star_centre gridPos_star_far dist_star_centre dist_star_far)
qed

section \<open>The presence test\<close>

lemma hash_1_0:
  "0.9216 < fract (sin (dot2 (1, 0) (12.9898, 78.233)) * 43758.5453)"
  "fract (sin (dot2 (1, 0) (12.9898, 78.233)) * 43758.5453) < 0.9218"
  using presenceHash_1_0 unfolding presenceHash_def cell_hash_def .





section \<open>Determinism of the star pattern\<close>

text \<open>
  Claim C7.  The hashes that the star-field block computes are functions of \<^verbatim>\<open>gridPos\<close>
  and of the constants written in the shader: the presence hash is
  \<open>fract (sin (dot (gridPos, (12.9898, 78.233))) * 43758.5453)\<close>, and in a cell with a
  star the offset, size and brightness hashes are the same expression with the constants
  \<open>(127.1, 311.7)\<close>, \<open>(269.5, 183.3)\<close> and \<open>(415.2, 371.9)\<close>.  So two evaluations of the
  block that land in the same cell, whatever the pixel, the latitude, the intensity
  uniform and the variant of the shader, compute the same hashes, and the presence hash
  does not depend on the threshold either.  The block is the one whose \<^verbatim>\<open>stars\<close> is the
  value of \<^const>\<open>starField\<close>.
\<close>

theorem hashes_depend_on_cell_only:
  assumes "gridPos_of uv = gridPos_of uv'"
  shows "t_hash (starField_trace var thr i uv lat) = t_hash (starField_trace var' thr' i' uv' lat')
       \<and> t_hashX (starField_trace var thr i uv lat) = t_hashX (starField_trace var' thr i' uv' lat')
       \<and> t_hashY (starField_trace var thr i uv lat) = t_hashY (starField_trace var' thr i' uv' lat')
       \<and> t_sizeHash (starField_trace var thr i uv lat)
           = t_sizeHash (starField_trace var' thr i' uv' lat')
       \<and> t_brightness (starField_trace var thr i uv lat)
           = t_brightness (starField_trace var' thr i' uv' lat')
       \<and> t_hash (starField_trace var thr i uv lat)
           = fract (sin (dot2 (gridPos_of uv) (12.9898, 78.233)) * 43758.5453)
       \<and> (t_hash (starField_trace var thr i uv lat) > thr \<longrightarrow>
            t_hashX (starField_trace var thr i uv lat)
              = Some (fract (sin (dot2 (gridPos_of uv) (127.1, 311.7)) * 43758.5453))
            \<and> t_hashY (starField_trace var thr i uv lat)
              = Some (fract (sin (dot2 (gridPos_of uv) (269.5, 183.3)) * 43758.5453))
            \<and> t_sizeHash (starField_trace var thr i uv lat)
              = Some (fract (sin (dot2 (gridPos_of uv) (415.2, 371.9)) * 43758.5453))
            \<and> t_brightness (starField_trace var thr i uv lat)
              = Some (0.5 + 0.5 * fract (sin (dot2 (gridPos_of uv) (415.2, 371.9)) * 43758.5453)))
       \<and> (\<not> t_hash (starField_trace var thr i uv lat) > thr \<longrightarrow>
            t_hashX (starField_trace var thr i uv lat) = None
            \<and> t_hashY (starField_trace var thr i uv lat) = None
            \<and> t_sizeHash (starField_trace var thr i uv lat) = None
            \<and> t_brightness (starField_trace var thr i uv lat) = None)
       \<and> t_stars (starField_trace var thr i uv lat) = starField var thr i uv lat
       \<and> t_gridPos (starField_trace var thr i uv lat) = gridPos_of uv"
  using assms
  by (simp add: starField_trace_eq starField_eq starPresent_def presenceHash_def offsetHash_def
      sizeHash_of_def brightness_of_def cell_hash_def)

theorem hashes_depend_on_cell_only_witness:
  "gridPos_of star_centre_uv = gridPos_of star_far_uv
   \<and> t_hash (starField_trace Plugin 0.85 20 star_centre_uv 0)
       = t_hash (starField_trace Layer 0.5 5 star_far_uv 0.3)
   \<and> t_hash (starField_trace Plugin 0.85 20 star_centre_uv 0) > 0.85
   \<and> t_hashX (starField_trace Plugin 0.85 20 star_centre_uv 0)
       = t_hashX (starField_trace Layer 0.85 5 star_far_uv 0.3)
   \<and> t_hashX (starField_trace Plugin 0.85 20 star_centre_uv 0)
       = Some (fract (sin (dot2 (1, 0) (127.1, 311.7)) * 43758.5453))
   \<and> t_hashY (starField_trace Plugin 0.85 20 star_centre_uv 0)
       = t_hashY (starField_trace Layer 0.85 5 star_far_uv 0.3)
   \<and> t_sizeHash (starField_trace Plugin 0.85 20 star_centre_uv 0)
       = t_sizeHash (starField_trace Layer 0.85 5 star_far_uv 0.3)
   \<and> t_sizeHash (starField_trace Plugin 0.85 20 star_centre_uv 0)
       = Some (fract (sin (dot2 (1, 0) (415.2, 371.9)) * 43758.5453))
   \<and> t_brightness (starField_trace Plugin 0.85 20 star_centre_uv 0)
       = t_brightness (starField_trace Layer 0.85 5 star_far_uv 0.3)"
proof -
  let ?A = "starField_trace Plugin 0.85 20 star_centre_uv 0"
  have g: "gridPos_of star_centre_uv = gridPos_of star_far_uv"
    by (simp only: gridPos_star_centre gridPos_star_far)
  note t = hashes_depend_on_cell_only [OF g, where var = Plugin and thr = "0.85" and i = 20
      and lat = 0 and var' = Layer and thr' = "0.5" and i' = 5 and lat' = "0.3"]
  from t have c1: "t_hash ?A = t_hash (starField_trace Layer 0.5 5 star_far_uv 0.3)"
    and c2: "t_hashX ?A = t_hashX (starField_trace Layer 0.85 5 star_far_uv 0.3)"
    and c3: "t_hashY ?A = t_hashY (starField_trace Layer 0.85 5 star_far_uv 0.3)"
    and c4: "t_sizeHash ?A = t_sizeHash (starField_trace Layer 0.85 5 star_far_uv 0.3)"
    and c5: "t_brightness ?A = t_brightness (starField_trace Layer 0.85 5 star_far_uv 0.3)"
    and c6: "t_hash ?A = fract (sin (dot2 (gridPos_of star_centre_uv) (12.9898, 78.233)) * 43758.5453)"
    and c7: "t_hash ?A > 0.85 \<longrightarrow>
        t_hashX ?A = Some (fract (sin (dot2 (gridPos_of star_centre_uv) (127.1, 311.7)) * 43758.5453))
        \<and> t_hashY ?A = Some (fract (sin (dot2 (gridPos_of star_centre_uv) (269.5, 183.3)) * 43758.5453))
        \<and> t_sizeHash ?A
          = Some (fract (sin (dot2 (gridPos_of star_centre_uv) (415.2, 371.9)) * 43758.5453))
        \<and> t_brightness ?A
          = Some (0.5 + 0.5 * fract (sin (dot2 (gridPos_of star_centre_uv) (415.2, 371.9)) * 43758.5453))"
    by blast+
  have h: "t_hash ?A > 0.85"
    unfolding c6 gridPos_star_centre using hash_1_0(1) by simp
  from c7 h have "t_hashX ?A = Some (fract (sin (dot2 (gridPos_of star_centre_uv) (127.1, 311.7)) * 43758.5453))"
    and "t_sizeHash ?A
          = Some (fract (sin (dot2 (gridPos_of star_centre_uv) (415.2, 371.9)) * 43758.5453))"
    by blast+
  then have x: "t_hashX ?A = Some (fract (sin (dot2 (1, 0) (127.1, 311.7)) * 43758.5453))"
    and s: "t_sizeHash ?A = Some (fract (sin (dot2 (1, 0) (415.2, 371.9)) * 43758.5453))"
    unfolding gridPos_star_centre .
  from g c1 h c2 x c3 c4 s c5 show ?thesis
    by blast
qed

section \<open>Configuration: properties\<close>

text \<open>
  Claim C10.  A density or an intensity given as \<open>0\<close> is replaced by the default
  (\<open>0.15\<close>, \<open>20\<close>) in both constructors.  The literal baked into the shader is the
  double \<open>1 - density\<close> rounded to two decimals: it is a whole number of hundredths within
  \<open>0.005\<close> of that double, and the double is \<open>1 - density\<close> up to the relative error
  \<open>2\<^sup>-\<^sup>5\<^sup>3\<close> of each of the two roundings.  The densities \<open>0.15\<close> and \<open>0.154\<close>, less
  than \<open>0.005\<close> apart, compile to the same fragment shader.  Where \<open>1 - density\<close> has a
  \<open>5\<close> as its third decimal the digits follow the double: \<open>0.85\<close> for the density
  \<open>0.145\<close>, \<open>0.99\<close> for \<open>0.005\<close>, and \<open>-0.00\<close> for \<open>1.005\<close>.
\<close>

theorem falsy_defaults_and_baked_threshold:
  "density (StarsPlugin (opts\<lparr>opt_density := Some 0\<rparr>)) = 0.15
   \<and> intensity (StarsPlugin (opts\<lparr>opt_intensity := Some 0\<rparr>)) = 20
   \<and> l_density (createStarsLayer (opts\<lparr>opt_density := Some 0\<rparr>)) = 0.15
   \<and> l_intensity (createStarsLayer (opts\<lparr>opt_intensity := Some 0\<rparr>)) = 20
   \<and> (\<exists>n::int. threshold_of dn = of_int n / 100)
   \<and> \<bar>threshold_of dn - fl (1 - fl dn)\<bar> \<le> 0.005
   \<and> \<bar>fl (1 - fl dn) - (1 - fl dn)\<bar> \<le> \<bar>1 - fl dn\<bar> / 2 ^ 53
   \<and> \<bar>fl dn - dn\<bar> \<le> \<bar>dn\<bar> / 2 ^ 53
   \<and> \<bar>0.154 - 0.15 :: real\<bar> < 0.005
   \<and> fragmentSource var 0.154 = fragmentSource var 0.15
   \<and> threshold_of 0.145 = 0.85
   \<and> threshold_of 0.005 = 0.99
   \<and> threshold_of 1.005 = 0"
proof -
  have "fragmentSource var 0.154 = fragmentSource var 0.15"
    unfolding fragmentSource_def threshold_of_0154 threshold_of_default by (rule refl)
  moreover have "\<exists>n::int. threshold_of dn = of_int n / 100"
    unfolding threshold_of_def by (rule toFixed2_two_decimals)
  moreover have "\<bar>threshold_of dn - fl (1 - fl dn)\<bar> \<le> 0.005"
    unfolding threshold_of_def using toFixed2_close [of "fl (1 - fl dn)"] by simp
  moreover have "\<bar>fl (1 - fl dn) - (1 - fl dn)\<bar> \<le> \<bar>1 - fl dn\<bar> / 2 ^ 53"
    by (rule fl_rel)
  moreover have "\<bar>fl dn - dn\<bar> \<le> \<bar>dn\<bar> / 2 ^ 53"
    by (rule fl_rel)
  moreover note threshold_of_0145 threshold_of_0005 threshold_of_1005
  ultimately show ?thesis
    by (simp add: StarsPlugin_def createStarsLayer_def js_or_def)
qed


end
